theory Spec2Isabelle
  imports Main
begin

section \<open>Text, values and the environment of a run\<close>

text \<open>
  A Python \<open>str\<close> is a sequence of Unicode code points, so text is a list of
  natural numbers. \<open>pystr\<close> embeds an ASCII literal.
\<close>

type_synonym ustr = "nat list"

definition pystr :: "string \<Rightarrow> ustr" where
  "pystr s = map of_char s"

text \<open>
  \<open>str.isspace\<close>, which is also the class \<open>\s\<close> of a \<open>str\<close> pattern and what
  \<open>str.strip()\<close> removes: the white space of the Unicode database.
\<close>

definition is_space :: "nat \<Rightarrow> bool" where
  "is_space c =
     ((9 \<le> c \<and> c \<le> 13) \<or> (28 \<le> c \<and> c \<le> 32) \<or> c = 133 \<or> c = 160 \<or> c = 5760 \<or>
      (8192 \<le> c \<and> c \<le> 8202) \<or> c = 8232 \<or> c = 8233 \<or> c = 8239 \<or> c = 8287 \<or>
      c = 12288)"

definition strip :: "ustr \<Rightarrow> ustr" where
  "strip s = rev (dropWhile is_space (rev (dropWhile is_space s)))"

text \<open>\<open>str(n)\<close> of an integer: decimal digits, with a minus sign when negative.\<close>

fun dec_digits :: "nat \<Rightarrow> ustr" where
  "dec_digits n = (if n < 10 then [48 + n] else dec_digits (n div 10) @ [48 + n mod 10])"

declare dec_digits.simps [simp del]

definition py_str_int :: "int \<Rightarrow> ustr" where
  "py_str_int v = (if v < 0 then 45 # dec_digits (nat (- v)) else dec_digits (nat v))"

text \<open>
  The values \<open>json.load\<close> decodes to. A float is kept abstract: the programs never
  compute with one. An object is the decoded \<open>dict\<close>, its items in insertion order.
\<close>

typedecl pyfloat

datatype json =
    JNull
  | JBool bool
  | JInt int
  | JFloat pyfloat
  | JStr ustr
  | JArr "json list"
  | JObj "(ustr \<times> json) list"

datatype py_exception =
    FileNotFoundError
  | PermissionError
  | IsADirectoryError
  | UnicodeDecodeError
  | JSONDecodeError
  | TypeError
  | KeyError
  | ValueError
  | RuntimeError ustr

text \<open>One record of the scanner's output list, and the \<open>data\<close> dictionary it dumps.\<close>

record export_record =
  name :: ustr
  return_type :: ustr
  args :: ustr

record report =
  schema_version :: int
  source :: ustr
  timestamp :: ustr
  exported_functions :: "export_record list"

text \<open>
  What the scripts take from the Python library and the Unicode database, as
  parameters: the alphanumeric and decimal-digit properties of code points beyond
  ASCII, the JSON decoder (\<open>None\<close> when it raises), the JSON encoder with
  \<open>indent=3\<close>, the JSON text of a value, and \<open>repr\<close> of a float, list or dict.
\<close>

record pylib =
  uni_alnum :: "nat \<Rightarrow> bool"
  uni_decimal :: "nat \<Rightarrow> nat option"
  json_loads :: "ustr \<Rightarrow> json option"
  json_dump :: "report \<Rightarrow> ustr"
  json_encode :: "json \<Rightarrow> ustr"
  py_repr :: "json \<Rightarrow> ustr"

text \<open>
  The file system as a run sees it: what opening a path for reading and reading it all
  yields (the text, or the exception raised), and whether opening a path for writing
  raises.
\<close>

record world =
  files :: "ustr \<Rightarrow> py_exception + ustr"
  open_w_error :: "ustr \<Rightarrow> py_exception option"

datatype argparse_error =
    AmbiguousOption ustr
  | ExpectedOneArgument ustr
  | IgnoredExplicitArgument ustr
  | RequiredMissing "ustr list"
  | UnrecognizedArguments "ustr list"

datatype event =
    OpenRead ustr
  | OpenWrite ustr
  | Stdout ustr
  | StdoutHelp
  | StderrUsage argparse_error
  | StderrTraceback py_exception

text \<open>A finished run: what it did, in order, and the exit status of the process.\<close>

record outcome =
  trace :: "event list"
  exit_code :: nat

definition uncaught :: "event list \<Rightarrow> py_exception \<Rightarrow> outcome" where
  "uncaught tr e = \<lparr>trace = tr @ [StderrTraceback e], exit_code = 1\<rparr>"

section \<open>ConfigLookup (read\_config.py)\<close>

text \<open>\<open>str(v)\<close>, which is what \<open>print(v)\<close> writes before the newline.\<close>

definition py_str :: "pylib \<Rightarrow> json \<Rightarrow> ustr" where
  "py_str lib v =
     (case v of
        JNull \<Rightarrow> pystr ''None''
      | JBool b \<Rightarrow> (if b then pystr ''True'' else pystr ''False'')
      | JInt i \<Rightarrow> py_str_int i
      | JStr s \<Rightarrow> s
      | _ \<Rightarrow> py_repr lib v)"


text \<open>\<open>sub in s\<close> on two strings.\<close>

fun str_contains :: "ustr \<Rightarrow> ustr \<Rightarrow> bool" where
  "str_contains sub [] = (sub = [])"
| "str_contains sub (c # cs) = (take (length sub) (c # cs) = sub \<or> str_contains sub cs)"

text \<open>
  \<open>label in config\<close>: key membership on a dict, element membership on a list,
  substring on a string, \<open>TypeError\<close> on anything else.
\<close>

definition py_contains :: "json \<Rightarrow> ustr \<Rightarrow> py_exception + bool" where
  "py_contains config label =
     (case config of
        JObj kvs \<Rightarrow> Inr (map_of kvs label \<noteq> None)
      | JArr xs \<Rightarrow> Inr (JStr label \<in> set xs)
      | JStr s \<Rightarrow> Inr (str_contains label s)
      | _ \<Rightarrow> Inl TypeError)"

text \<open>\<open>config[label]\<close> with a string index.\<close>

definition py_getitem :: "json \<Rightarrow> ustr \<Rightarrow> py_exception + json" where
  "py_getitem config label =
     (case config of
        JObj kvs \<Rightarrow> (case map_of kvs label of None \<Rightarrow> Inl KeyError | Some v \<Rightarrow> Inr v)
      | _ \<Rightarrow> Inl TypeError)"

text \<open>
  The \<open>for label in labels\<close> loop. Both branches of its body leave the process, so
  the body runs for the first label only and there is no recursive call.
\<close>

fun label_loop :: "pylib \<Rightarrow> json \<Rightarrow> event list \<Rightarrow> ustr list \<Rightarrow> outcome" where
  "label_loop lib config tr [] = \<lparr>trace = tr, exit_code = 0\<rparr>"
| "label_loop lib config tr (label # rest) =
     (case py_contains config label of
        Inl e \<Rightarrow> uncaught tr e
      | Inr True \<Rightarrow>
          (case py_getitem config label of
             Inl e \<Rightarrow> uncaught tr e
           | Inr v \<Rightarrow> \<lparr>trace = tr @ [Stdout (py_str lib v @ [10])], exit_code = 0\<rparr>)
      | Inr False \<Rightarrow> \<lparr>trace = tr, exit_code = 1\<rparr>)"

definition config_path :: ustr where
  "config_path = pystr ''config.json''"

definition ConfigLookup :: "pylib \<Rightarrow> ustr list \<Rightarrow> world \<Rightarrow> outcome" where
  "ConfigLookup lib labels w =
     (case files w config_path of
        Inl e \<Rightarrow> uncaught [OpenRead config_path] e
      | Inr text \<Rightarrow>
          (case json_loads lib text of
             None \<Rightarrow> uncaught [OpenRead config_path] JSONDecodeError
           | Some config \<Rightarrow> label_loop lib config [OpenRead config_path] labels))"

text \<open>What a run printed to standard output.\<close>

fun stdout_of :: "event list \<Rightarrow> ustr" where
  "stdout_of [] = []"
| "stdout_of (Stdout s # es) = s @ stdout_of es"
| "stdout_of (e # es) = stdout_of es"

section \<open>The regular expressions of scanner.py\<close>

text \<open>
  A compiled pattern is a list of operations, as the \<open>re\<close> module compiles the two
  patterns of the script: \<open>^\<close> under \<open>re.MULTILINE\<close>, literal characters, the
  greedy repetition of a one-character class (at least \<open>n\<close> times), and the marks
  that open and close a group (group \<open>g\<close> lies between marks \<open>2g - 2\<close> and
  \<open>2g - 1\<close>).
\<close>

datatype op =
    AtBol
  | Lit ustr
  | Rep nat "nat \<Rightarrow> bool"
  | Mark nat

type_synonym marks = "nat \<Rightarrow> nat option"

text \<open>
  A greedy repetition that can take at most \<open>k\<close> characters: the rest of the pattern
  is tried after \<open>k\<close> characters, then after one fewer, down to \<open>lo\<close>.
\<close>

fun greedy :: "(nat \<Rightarrow> 'a option) \<Rightarrow> nat \<Rightarrow> nat \<Rightarrow> 'a option" where
  "greedy f lo k =
     (if k < lo then None
      else (case f k of
              Some r \<Rightarrow> Some r
            | None \<Rightarrow> (if k = 0 then None else greedy f lo (k - 1))))"

declare greedy.simps [simp del]

text \<open>
  The backtracking matcher: \<open>rx_match ops s i ms\<close> matches \<open>ops\<close> against \<open>s\<close> from
  position \<open>i\<close> and yields the end position and the marks of the first way to match,
  in the engine's order of preference.
\<close>

primrec rx_match :: "op list \<Rightarrow> ustr \<Rightarrow> nat \<Rightarrow> marks \<Rightarrow> (nat \<times> marks) option" where
  "rx_match [] s i ms = Some (i, ms)"
| "rx_match (x # ops) s i ms =
     (case x of
        AtBol \<Rightarrow> (if i = 0 \<or> s ! (i - 1) = 10 then rx_match ops s i ms else None)
      | Lit l \<Rightarrow>
          (if take (length l) (drop i s) = l then rx_match ops s (i + length l) ms else None)
      | Rep lo c \<Rightarrow>
          greedy (\<lambda>k. rx_match ops s (i + k) ms) lo (length (takeWhile c (drop i s)))
      | Mark g \<Rightarrow> rx_match ops s i (ms(g \<mapsto> i)))"

text \<open>\<open>pattern.search\<close> from position \<open>i\<close>: the first start position with a match.\<close>

function search :: "op list \<Rightarrow> ustr \<Rightarrow> nat \<Rightarrow> (nat \<times> nat \<times> marks) option" where
  "search ops s i =
     (if length s < i then None
      else (case rx_match ops s i Map.empty of
              Some (e, ms) \<Rightarrow> Some (i, e, ms)
            | None \<Rightarrow> search ops s (Suc i)))"
  by pat_completeness auto
termination
  by (relation "measure (\<lambda>(ops, s, i). Suc (length s) - i)") auto

declare search.simps [simp del]

definition slice :: "ustr \<Rightarrow> nat \<Rightarrow> nat \<Rightarrow> ustr" where
  "slice s a b = take (b - a) (drop a s)"

text \<open>\<open>match.group(g)\<close>: \<open>None\<close> when the group took no part in the match.\<close>

definition group :: "ustr \<Rightarrow> marks \<Rightarrow> nat \<Rightarrow> ustr option" where
  "group s ms g =
     (case (ms (2 * g - 2), ms (2 * g - 1)) of
        (Some a, Some b) \<Rightarrow> Some (slice s a b)
      | _ \<Rightarrow> None)"

text \<open>The class \<open>\w\<close> of a \<open>str\<close> pattern: alphanumeric or the underscore.\<close>

definition is_word :: "pylib \<Rightarrow> nat \<Rightarrow> bool" where
  "is_word lib c =
     ((48 \<le> c \<and> c \<le> 57) \<or> (65 \<le> c \<and> c \<le> 90) \<or> (97 \<le> c \<and> c \<le> 122) \<or> c = 95 \<or>
      (128 \<le> c \<and> uni_alnum lib c))"

text \<open>The class \<open>[\w\s*]\<close>.\<close>

definition is_ret_char :: "pylib \<Rightarrow> nat \<Rightarrow> bool" where
  "is_ret_char lib c = (is_word lib c \<or> is_space c \<or> c = 42)"

text \<open>The class \<open>[^)]\<close>.\<close>

definition not_rparen :: "nat \<Rightarrow> bool" where
  "not_rparen c = (c \<noteq> 41)"

text \<open>
  \<^verbatim>\<open>^\s*#define\s+(\w+)\s+__declspec\s*\(\s*dllexport\s*\)\<close>
\<close>

definition macro_pattern :: "pylib \<Rightarrow> op list" where
  "macro_pattern lib =
     [AtBol, Rep 0 is_space, Lit (pystr ''#define''), Rep 1 is_space,
      Mark 0, Rep 1 (is_word lib), Mark 1,
      Rep 1 is_space, Lit (pystr ''__declspec''), Rep 0 is_space, Lit (pystr ''(''),
      Rep 0 is_space, Lit (pystr ''dllexport''), Rep 0 is_space, Lit (pystr '')'')]"

text \<open>
  \<^verbatim>\<open>^\s*{escaped_macro}\s+([\w\s*]+)\s+(\w+)\s*\(([^)]*)\)\s*\{\<close>,
  where \<open>re.escape\<close> makes the macro name a literal.
\<close>

definition func_pattern :: "pylib \<Rightarrow> ustr \<Rightarrow> op list" where
  "func_pattern lib escaped_macro =
     [AtBol, Rep 0 is_space, Lit escaped_macro, Rep 1 is_space,
      Mark 0, Rep 1 (is_ret_char lib), Mark 1,
      Rep 1 is_space,
      Mark 2, Rep 1 (is_word lib), Mark 3,
      Rep 0 is_space, Lit (pystr ''(''),
      Mark 4, Rep 0 not_rparen, Mark 5,
      Lit (pystr '')''), Rep 0 is_space, Lit (pystr ''{'')]"

text \<open>
  \<open>pattern.findall\<close>: the matches from left to right, each search starting where the
  previous match ended (one further after an empty match).
\<close>

lemma greedy_SomeD:
  "greedy f lo k = Some r \<Longrightarrow> \<exists>j. lo \<le> j \<and> j \<le> k \<and> f j = Some r"
proof (induction f lo k rule: greedy.induct)
  case (1 f lo k)
  show ?case
  proof (cases "f k")
    case (Some r')
    with "1.prems" have "\<not> k < lo" "f k = Some r"
      by (auto simp: greedy.simps [of f lo k] split: if_splits)
    then show ?thesis by (intro exI [of _ k]) auto
  next
    case None
    with "1.prems" have k: "\<not> k < lo" "k \<noteq> 0" and g: "greedy f lo (k - 1) = Some r"
      by (auto simp: greedy.simps [of f lo k] split: if_splits)
    from "1.IH" [OF k(1) None k(2) g] obtain j
      where "lo \<le> j" "j \<le> k - 1" "f j = Some r" by blast
    then show ?thesis by (intro exI [of _ j]) auto
  qed
qed

lemma rx_match_bounds:
  "rx_match ops s i ms = Some (e, ms') \<Longrightarrow> i \<le> length s \<Longrightarrow> i \<le> e \<and> e \<le> length s"
proof (induction ops arbitrary: i ms)
  case Nil
  then show ?case by simp
next
  case (Cons x ops)
  show ?case
  proof (cases x)
    case AtBol
    with Cons.prems Cons.IH [of i ms] show ?thesis
      by (auto split: if_splits)
  next
    case (Lit l)
    with Cons.prems have eq: "take (length l) (drop i s) = l"
      and r: "rx_match ops s (i + length l) ms = Some (e, ms')"
      by (auto split: if_splits)
    from eq have "length (take (length l) (drop i s)) = length l" by simp
    then have "length l \<le> length s - i" by simp
    with Cons.prems(2) have "i + length l \<le> length s" by simp
    with Cons.IH [OF r] show ?thesis by simp
  next
    case (Rep lo c)
    with Cons.prems obtain j where j: "j \<le> length (takeWhile c (drop i s))"
      and r: "rx_match ops s (i + j) ms = Some (e, ms')"
      by (auto dest!: greedy_SomeD)
    have "length (takeWhile c (drop i s)) \<le> length s - i"
      by (metis length_drop length_takeWhile_le)
    with j Cons.prems(2) have "i + j \<le> length s" by simp
    with Cons.IH [OF r] show ?thesis by simp
  next
    case (Mark g)
    with Cons.prems have r: "rx_match ops s i (ms(g \<mapsto> i)) = Some (e, ms')" by simp
    from Cons.IH [OF r Cons.prems(2)] show ?thesis .
  qed
qed

lemma search_bounds:
  "search ops s i = Some (st, e, ms) \<Longrightarrow> i \<le> st \<and> st \<le> e \<and> e \<le> length s"
proof (induction ops s i rule: search.induct)
  case (1 ops s i)
  show ?case
  proof (cases "rx_match ops s i Map.empty")
    case None
    with "1.prems" have le: "\<not> length s < i" and r: "search ops s (Suc i) = Some (st, e, ms)"
      by (auto simp: search.simps [of ops s i] split: if_splits)
    from "1.IH" [OF le None r] show ?thesis by simp
  next
    case (Some p)
    obtain e' ms' where p: "p = (e', ms')" by (cases p)
    with Some "1.prems" have le: "i \<le> length s" and eq: "st = i" "e = e'" "ms = ms'"
      by (auto simp: search.simps [of ops s i] split: if_splits)
    from rx_match_bounds [OF Some [unfolded p] le] eq show ?thesis by simp
  qed
qed

function findall_from :: "op list \<Rightarrow> ustr \<Rightarrow> nat \<Rightarrow> (nat \<times> nat \<times> marks) list" where
  "findall_from ops s pos =
     (case search ops s pos of
        None \<Rightarrow> []
      | Some (st, e, ms) \<Rightarrow> (st, e, ms) # findall_from ops s (if st < e then e else Suc e))"
  by pat_completeness auto
termination
proof (relation "measure (\<lambda>(ops, s, pos). Suc (length s) - pos)", goal_cases)
  case 1
  show ?case by simp
next
  case (2 ops s pos x2 st y e ms)
  then have "search ops s pos = Some (st, e, ms)" by simp
  from search_bounds [OF this] show ?case by auto
qed

declare findall_from.simps [simp del]

definition findall :: "op list \<Rightarrow> ustr \<Rightarrow> (nat \<times> nat \<times> marks) list" where
  "findall ops s = findall_from ops s 0"

text \<open>A group of a \<open>findall\<close> tuple: the empty string when the group took no part.\<close>

definition group_str :: "ustr \<Rightarrow> marks \<Rightarrow> nat \<Rightarrow> ustr" where
  "group_str s ms g = (case group s ms g of None \<Rightarrow> [] | Some t \<Rightarrow> t)"

section \<open>The command line of scanner.py\<close>

text \<open>
  The parser of the script: \<open>-h\<close>/\<open>--help\<close>, which \<open>argparse\<close> adds, the three
  required options that take one value, and the flag \<open>--verbose\<close>.
\<close>

datatype action = Help | Version | Source | Out | Verbose

definition option_strings :: "(ustr \<times> action) list" where
  "option_strings =
     [(pystr ''-h'', Help), (pystr ''--help'', Help), (pystr ''--version'', Version),
      (pystr ''--source'', Source), (pystr ''--out'', Out), (pystr ''--verbose'', Verbose)]"

text \<open>
  How \<open>argparse\<close> reads one command-line string: an argument (\<open>A\<close>), the separator
  \<open>--\<close>, or an option (\<open>O\<close>) with the action it names (none for an unknown option),
  the option string, and the value attached to it, if any.
\<close>

datatype tok = Arg | DashDash | Opt "action option" ustr "ustr option"

definition starts_with :: "ustr \<Rightarrow> ustr \<Rightarrow> bool" where
  "starts_with s p = (take (length p) s = p)"

text \<open>The class \<open>\d\<close> of a \<open>str\<close> pattern: a decimal digit of any script.\<close>

definition is_digit :: "pylib \<Rightarrow> nat \<Rightarrow> bool" where
  "is_digit lib c = ((48 \<le> c \<and> c \<le> 57) \<or> (128 \<le> c \<and> uni_decimal lib c \<noteq> None))"

text \<open>
  \<open>argparse\<close>'s test for a negative number, \<^verbatim>\<open>^-\d+$|^-\d*\.\d+$\<close>; the \<open>$\<close> also
  matches before a final newline.
\<close>

definition neg_body :: "pylib \<Rightarrow> ustr \<Rightarrow> bool" where
  "neg_body lib b =
     (case b of
        [] \<Rightarrow> False
      | c # r \<Rightarrow>
          c = 45 \<and>
          ((r \<noteq> [] \<and> list_all (is_digit lib) r) \<or>
           (case dropWhile (is_digit lib) r of
              [] \<Rightarrow> False
            | d # fr \<Rightarrow> d = 46 \<and> fr \<noteq> [] \<and> list_all (is_digit lib) fr)))"

definition negative_number :: "pylib \<Rightarrow> ustr \<Rightarrow> bool" where
  "negative_number lib a =
     (neg_body lib a \<or> (a \<noteq> [] \<and> last a = 10 \<and> neg_body lib (butlast a)))"

text \<open>
  The options an abbreviation can stand for: for a string that starts with \<open>--\<close>,
  every option string it is a prefix of (up to an \<open>=\<close>); for a single dash, an
  option string equal to its first two characters, the rest being its value.
\<close>

definition get_option_tuples :: "ustr \<Rightarrow> tok list" where
  "get_option_tuples a =
     (if a ! 1 = 45 then
        (let option_prefix = takeWhile (\<lambda>c. c \<noteq> 61) a;
             explicit_arg = (if 61 \<in> set a then Some (tl (dropWhile (\<lambda>c. c \<noteq> 61) a)) else None)
         in [Opt (Some act) os explicit_arg. (os, act) \<leftarrow> option_strings,
               starts_with os option_prefix])
      else
        concat (map (\<lambda>(os, act).
                  if os = take 2 a then [Opt (Some act) os (Some (drop 2 a))]
                  else if starts_with os a then [Opt (Some act) os None]
                  else []) option_strings))"

definition parse_optional :: "pylib \<Rightarrow> ustr \<Rightarrow> argparse_error + tok" where
  "parse_optional lib a =
     (if a = [] then Inr Arg
      else if hd a \<noteq> 45 then Inr Arg
      else (case map_of option_strings a of
              Some act \<Rightarrow> Inr (Opt (Some act) a None)
            | None \<Rightarrow>
                if length a = 1 then Inr Arg
                else (case (if 61 \<in> set a
                            then map_of option_strings (takeWhile (\<lambda>c. c \<noteq> 61) a)
                            else None) of
                        Some act \<Rightarrow>
                          Inr (Opt (Some act) (takeWhile (\<lambda>c. c \<noteq> 61) a)
                                 (Some (tl (dropWhile (\<lambda>c. c \<noteq> 61) a))))
                      | None \<Rightarrow>
                          (case get_option_tuples a of
                             [t] \<Rightarrow> Inr t
                           | t # t' # ts \<Rightarrow> Inl (AmbiguousOption a)
                           | [] \<Rightarrow>
                               if negative_number lib a then Inr Arg
                               else if 32 \<in> set a then Inr Arg
                               else Inr (Opt None a None)))))"

text \<open>
  The first pass over the command line: every string is classified; after \<open>--\<close>
  every string is an argument.
\<close>

fun classify :: "pylib \<Rightarrow> ustr list \<Rightarrow> argparse_error + (ustr \<times> tok) list" where
  "classify lib [] = Inr []"
| "classify lib (a # rest) =
     (if a = pystr ''--'' then Inr ((a, DashDash) # map (\<lambda>b. (b, Arg)) rest)
      else (case parse_optional lib a of
              Inl e \<Rightarrow> Inl e
            | Inr t \<Rightarrow>
                (case classify lib rest of
                   Inl e \<Rightarrow> Inl e
                 | Inr ts \<Rightarrow> Inr ((a, t) # ts))))"

text \<open>The namespace \<open>parse_args\<close> returns (\<open>args.version\<close>, \<open>args.source\<close>, ...).\<close>

record namespace =
  arg_version :: ustr
  arg_source :: ustr
  arg_out :: ustr
  arg_verbose :: bool

record parse_state =
  st_version :: "ustr option"
  st_source :: "ustr option"
  st_out :: "ustr option"
  st_verbose :: bool
  st_extras :: "ustr list"

datatype parse_result = UsageError argparse_error | HelpExit | Parsed namespace

definition store :: "action \<Rightarrow> ustr \<Rightarrow> parse_state \<Rightarrow> parse_state" where
  "store act v st =
     (case act of
        Version \<Rightarrow> st\<lparr>st_version := Some v\<rparr>
      | Source \<Rightarrow> st\<lparr>st_source := Some v\<rparr>
      | Out \<Rightarrow> st\<lparr>st_out := Some v\<rparr>
      | _ \<Rightarrow> st)"

text \<open>
  After the last string: a required option that was never given is an error, then
  any string that no option consumed is.
\<close>

definition finish :: "parse_state \<Rightarrow> parse_result" where
  "finish st =
     (let missing =
            (if st_version st = None then [pystr ''--version''] else []) @
            (if st_source st = None then [pystr ''--source''] else []) @
            (if st_out st = None then [pystr ''--out''] else [])
      in if missing \<noteq> [] then UsageError (RequiredMissing missing)
         else if st_extras st \<noteq> [] then UsageError (UnrecognizedArguments (st_extras st))
         else (case (st_version st, st_source st, st_out st) of
                 (Some v, Some s, Some out) \<Rightarrow>
                   Parsed \<lparr>arg_version = v, arg_source = s, arg_out = out,
                           arg_verbose = st_verbose st\<rparr>
               | _ \<Rightarrow> UsageError (RequiredMissing missing)))"

text \<open>
  The second pass, from left to right: an option that takes a value consumes the value
  attached to it or else the next string, which must be an argument; \<open>--verbose\<close> and
  the help options take none; the help action prints the help and leaves with status
  0 as soon as it is reached; everything else is set aside as unrecognised.
\<close>

fun consume :: "parse_state \<Rightarrow> (ustr \<times> tok) list \<Rightarrow> parse_result" where
  "consume st [] = finish st"
| "consume st ((a, Arg) # rest) = consume (st\<lparr>st_extras := st_extras st @ [a]\<rparr>) rest"
| "consume st ((a, DashDash) # rest) = consume (st\<lparr>st_extras := st_extras st @ [a]\<rparr>) rest"
| "consume st ((a, Opt None os explicit_arg) # rest) =
     consume (st\<lparr>st_extras := st_extras st @ [a]\<rparr>) rest"
| "consume st ((a, Opt (Some Help) os explicit_arg) # rest) =
     (case explicit_arg of
        None \<Rightarrow> HelpExit
      | Some x \<Rightarrow>
          if os = pystr ''-h'' \<and> x \<noteq> [] \<and> list_all (\<lambda>c. c = 104) x then HelpExit
          else UsageError (IgnoredExplicitArgument x))"
| "consume st ((a, Opt (Some Verbose) os explicit_arg) # rest) =
     (case explicit_arg of
        None \<Rightarrow> consume (st\<lparr>st_verbose := True\<rparr>) rest
      | Some x \<Rightarrow> UsageError (IgnoredExplicitArgument x))"
| "consume st ((a, Opt (Some act) os explicit_arg) # rest) =
     (case explicit_arg of
        Some x \<Rightarrow> consume (store act x st) rest
      | None \<Rightarrow>
          (case rest of
             (v, Arg) # rest' \<Rightarrow> consume (store act v st) rest'
           | _ \<Rightarrow> UsageError (ExpectedOneArgument os)))"

definition parse_args :: "pylib \<Rightarrow> ustr list \<Rightarrow> parse_result" where
  "parse_args lib argv =
     (case classify lib argv of
        Inl e \<Rightarrow> UsageError e
      | Inr ts \<Rightarrow>
          consume \<lparr>st_version = None, st_source = None, st_out = None,
                   st_verbose = False, st_extras = []\<rparr> ts)"

section \<open>ExportScanner (scanner.py)\<close>

text \<open>
  \<open>int(s)\<close> on a string, \<open>None\<close> for \<open>ValueError\<close>: white space around an optional
  sign and decimal digits, single underscores allowed between digits. The conversion
  skips ASCII white space and the white space beyond ASCII, and reads the decimal digits
  of every script.
\<close>

definition int_space :: "nat \<Rightarrow> bool" where
  "int_space c = ((9 \<le> c \<and> c \<le> 13) \<or> c = 32 \<or> (127 \<le> c \<and> is_space c))"

definition digit_val :: "pylib \<Rightarrow> nat \<Rightarrow> nat option" where
  "digit_val lib c =
     (if 48 \<le> c \<and> c \<le> 57 then Some (c - 48)
      else if 127 \<le> c \<and> \<not> is_space c then uni_decimal lib c
      else None)"

definition ascii_digit :: "nat \<Rightarrow> bool" where
  "ascii_digit c = (48 \<le> c \<and> c \<le> 57)"

fun scan_digits :: "pylib \<Rightarrow> nat \<Rightarrow> ustr \<Rightarrow> (nat \<times> ustr) option" where
  "scan_digits lib acc [] = Some (acc, [])"
| "scan_digits lib acc (c # cs) =
     (case digit_val lib c of
        Some d \<Rightarrow> scan_digits lib (10 * acc + d) cs
      | None \<Rightarrow>
          if c = 95 then
            (case cs of
               [] \<Rightarrow> None
             | c' # cs' \<Rightarrow>
                 (case digit_val lib c' of
                    None \<Rightarrow> None
                  | Some d \<Rightarrow> scan_digits lib (10 * acc + d) cs'))
          else Some (acc, c # cs))"

definition py_int :: "pylib \<Rightarrow> ustr \<Rightarrow> int option" where
  "py_int lib s =
     (let t = dropWhile int_space s;
          neg = (t \<noteq> [] \<and> hd t = 45);
          u = (if t \<noteq> [] \<and> (hd t = 43 \<or> hd t = 45) then tl t else t)
      in case u of
           [] \<Rightarrow> None
         | c # cs \<Rightarrow>
             (case digit_val lib c of
                None \<Rightarrow> None
              | Some d \<Rightarrow>
                  (case scan_digits lib d cs of
                     None \<Rightarrow> None
                   | Some (n, rest) \<Rightarrow>
                       if dropWhile int_space rest = [] then
                         Some (if neg then - int n else int n)
                       else None)))"

definition no_macro_message :: ustr where
  "no_macro_message = pystr ''No Windows dllexport macro found in source file''"

text \<open>One entry of \<open>functions\<close>, from a \<open>findall\<close> tuple \<open>(ret_type, name, args_list)\<close>.\<close>

definition export_of :: "ustr \<Rightarrow> nat \<times> nat \<times> marks \<Rightarrow> export_record" where
  "export_of s mt =
     (case mt of (st, e, ms) \<Rightarrow>
        \<lparr>name = group_str s ms 2,
         return_type = strip (group_str s ms 1),
         args = strip (group_str s ms 3)\<rparr>)"

text \<open>
  Lines 26 and 27: the name the first macro definition of the text defines, \<open>None\<close>
  when the search finds none.
\<close>

definition export_macro :: "pylib \<Rightarrow> ustr \<Rightarrow> ustr option" where
  "export_macro lib source_code =
     (case search (macro_pattern lib) source_code 0 of
        None \<Rightarrow> None
      | Some (st, e, ms) \<Rightarrow> group source_code ms 1)"

text \<open>
  Lines 29 to 46: the error when there is no macro name (\<open>not export_macro\<close> holds
  for \<open>None\<close> and for the empty string), and otherwise the list of the functions the
  derived pattern finds.
\<close>

definition scan_source :: "pylib \<Rightarrow> ustr \<Rightarrow> py_exception + export_record list" where
  "scan_source lib source_code =
     (case export_macro lib source_code of
        None \<Rightarrow> Inl (RuntimeError no_macro_message)
      | Some mac \<Rightarrow>
          if mac = [] then Inl (RuntimeError no_macro_message)
          else Inr (map (export_of source_code)
                      (findall (func_pattern lib mac) source_code)))"

definition verbose_lines :: "namespace \<Rightarrow> export_record list \<Rightarrow> event list" where
  "verbose_lines a functions =
     [Stdout (pystr ''Writing '' @ py_str_int (int (length functions)) @
              pystr '' functions to '' @ arg_out a @ [10]),
      Stdout (pystr ''[VERBOSE] File scanned for functions: '' @ arg_source a @ [10])]"

text \<open>
  The whole script. \<open>now\<close> is the formatted local time the script takes first. The
  result is what the run did and the file system it leaves.
\<close>

definition ExportScanner :: "pylib \<Rightarrow> ustr \<Rightarrow> ustr list \<Rightarrow> world \<Rightarrow> outcome \<times> world" where
  "ExportScanner lib now argv w =
     (case parse_args lib argv of
        UsageError e \<Rightarrow> (\<lparr>trace = [StderrUsage e], exit_code = 2\<rparr>, w)
      | HelpExit \<Rightarrow> (\<lparr>trace = [StdoutHelp], exit_code = 0\<rparr>, w)
      | Parsed a \<Rightarrow>
          (case files w (arg_source a) of
             Inl e \<Rightarrow> (uncaught [OpenRead (arg_source a)] e, w)
           | Inr source_code \<Rightarrow>
               (case scan_source lib source_code of
                  Inl e \<Rightarrow> (uncaught [OpenRead (arg_source a)] e, w)
                | Inr functions \<Rightarrow>
                    (case py_int lib (arg_version a) of
                       None \<Rightarrow> (uncaught [OpenRead (arg_source a)] ValueError, w)
                     | Some v \<Rightarrow>
                         (let data = \<lparr>schema_version = v, source = arg_source a,
                                      timestamp = now, exported_functions = functions\<rparr>
                          in case open_w_error w (arg_out a) of
                               Some e \<Rightarrow>
                                 (uncaught [OpenRead (arg_source a), OpenWrite (arg_out a)] e, w)
                             | None \<Rightarrow>
                                 (\<lparr>trace = [OpenRead (arg_source a), OpenWrite (arg_out a)] @
                                            (if arg_verbose a then verbose_lines a functions
                                             else []),
                                   exit_code = 0\<rparr>,
                                  w\<lparr>files := (files w)(arg_out a := Inr (json_dump lib data))\<rparr>))))))"

section \<open>What the two patterns match\<close>

text \<open>
  The strings the patterns denote, read off the pattern text, for stating what the
  scanner finds without reference to the matcher. \<open>macro_definition lib mac t\<close>: the
  text \<open>t\<close> is a definition \<^verbatim>\<open>#define mac __declspec(dllexport)\<close>, with white space
  where the pattern allows it.
\<close>

definition macro_definition :: "pylib \<Rightarrow> ustr \<Rightarrow> ustr \<Rightarrow> bool" where
  "macro_definition lib mac t =
     (\<exists>ws0 ws1 ws2 ws3 ws4 ws5.
        t = ws0 @ pystr ''#define'' @ ws1 @ mac @ ws2 @ pystr ''__declspec'' @ ws3 @
            pystr ''('' @ ws4 @ pystr ''dllexport'' @ ws5 @ pystr '')'' \<and>
        list_all is_space ws0 \<and> list_all is_space ws1 \<and> ws1 \<noteq> [] \<and>
        list_all (is_word lib) mac \<and> mac \<noteq> [] \<and>
        list_all is_space ws2 \<and> ws2 \<noteq> [] \<and>
        list_all is_space ws3 \<and> list_all is_space ws4 \<and> list_all is_space ws5)"

text \<open>
  \<open>function_definition lib mac ret nm ar t\<close>: the text \<open>t\<close> is the head of a function
  definition guarded by the macro \<open>mac\<close>, up to its opening brace, with the return
  type text \<open>ret\<close>, the name \<open>nm\<close> and the argument text \<open>ar\<close>.
\<close>

definition function_definition :: "pylib \<Rightarrow> ustr \<Rightarrow> ustr \<Rightarrow> ustr \<Rightarrow> ustr \<Rightarrow> ustr \<Rightarrow> bool" where
  "function_definition lib mac ret nm ar t =
     (\<exists>ws0 ws1 ws2 ws3 ws4.
        t = ws0 @ mac @ ws1 @ ret @ ws2 @ nm @ ws3 @ pystr ''('' @ ar @ pystr '')'' @
            ws4 @ pystr ''{'' \<and>
        list_all is_space ws0 \<and> list_all is_space ws1 \<and> ws1 \<noteq> [] \<and>
        list_all (is_ret_char lib) ret \<and> ret \<noteq> [] \<and>
        list_all is_space ws2 \<and> ws2 \<noteq> [] \<and>
        list_all (is_word lib) nm \<and> nm \<noteq> [] \<and>
        list_all is_space ws3 \<and> list_all not_rparen ar \<and> list_all is_space ws4)"

text \<open>
  \<open>t\<close> is one contiguous span of \<open>s\<close> that begins at the start of a line: at the
  start of the text or right after a newline.
\<close>

definition occurs_at_line_start :: "ustr \<Rightarrow> ustr \<Rightarrow> bool" where
  "occurs_at_line_start t s = (\<exists>pre post. s = pre @ t @ post \<and> (pre = [] \<or> last pre = 10))"

section \<open>Example inputs\<close>

text \<open>
  The configuration file \<^verbatim>\<open>{"a": 1, "b": 2}\<close> and what it decodes to, a second one,
  \<^verbatim>\<open>{"a": true}\<close>, a library for the examples, and a file system that holds one file.
\<close>

definition config_ab_text :: ustr where
  "config_ab_text = [123, 34, 97, 34, 58, 32, 49, 44, 32, 34, 98, 34, 58, 32, 50, 125]"

definition config_ab :: json where
  "config_ab = JObj [(pystr ''a'', JInt 1), (pystr ''b'', JInt 2)]"

definition config_flag_text :: ustr where
  "config_flag_text = [123, 34, 97, 34, 58, 32, 116, 114, 117, 101, 125]"

definition config_flag :: json where
  "config_flag = JObj [(pystr ''a'', JBool True)]"

definition example_dump :: "report \<Rightarrow> ustr" where
  "example_dump r =
     py_str_int (schema_version r) @ [10] @ source r @ [10] @ timestamp r @ [10] @
     concat (map (\<lambda>f. return_type f @ [32] @ name f @ [40] @ args f @ [41, 10])
               (exported_functions r))"

definition example_lib :: pylib where
  "example_lib =
     \<lparr>uni_alnum = (\<lambda>c. False), uni_decimal = (\<lambda>c. None),
      json_loads = (\<lambda>t. if t = config_ab_text then Some config_ab
                          else if t = config_flag_text then Some config_flag else None),
      json_dump = example_dump, json_encode = (\<lambda>v. []), py_repr = (\<lambda>v. [])\<rparr>"

definition world_of :: "ustr \<Rightarrow> ustr \<Rightarrow> world" where
  "world_of path content =
     \<lparr>files = (\<lambda>p. if p = path then Inr content else Inl FileNotFoundError),
      open_w_error = (\<lambda>p. None)\<rparr>"

text \<open>
  Source files: the macro definition with one function definition; the same function
  with its head broken over three lines; a file without a macro definition; and the
  macro definition with a declaration only, which has no opening brace.
\<close>

definition example_source :: ustr where
  "example_source =
     pystr ''#define MYAPI __declspec(dllexport)'' @ [10] @
     pystr ''MYAPI int Foo(int x) {'' @ [10]"

definition multiline_source :: ustr where
  "multiline_source =
     pystr ''#define MYAPI __declspec(dllexport)'' @ [10] @
     pystr ''MYAPI int'' @ [10] @
     pystr ''Foo(int x,'' @ [10] @
     pystr ''    int y) {'' @ [10]"


definition declaration_source :: ustr where
  "declaration_source =
     pystr ''#define MYAPI __declspec(dllexport)'' @ [10] @
     pystr ''MYAPI int Foo(int x);'' @ [10]"

text \<open>
  A command line with the three required options, the namespace it parses to, and two
  times at which a run starts.
\<close>

definition example_argv :: "ustr \<Rightarrow> ustr list" where
  "example_argv v =
     [pystr ''--version'', v, pystr ''--source'', pystr ''lib.cpp'',
      pystr ''--out'', pystr ''exports.json'']"

definition example_args :: "ustr \<Rightarrow> namespace" where
  "example_args v =
     \<lparr>arg_version = v, arg_source = pystr ''lib.cpp'', arg_out = pystr ''exports.json'',
      arg_verbose = False\<rparr>"

definition example_now :: ustr where
  "example_now = pystr ''2024-05-01T12:00:00+02:00''"


section \<open>The matcher finds exactly what the patterns denote\<close>

lemma pystr_Nil: "pystr [] = []"
  by (simp add: pystr_def)

lemma pystr_Cons: "pystr (c # cs) = of_char c # pystr cs"
  by (simp add: pystr_def)

lemma slice_of_drop: "drop a s = w @ t \<Longrightarrow> slice s a (a + length w) = w"
  by (simp add: slice_def)

lemma rx_match_AtBolD:
  "rx_match (AtBol # ops) s i ms = Some r \<Longrightarrow>
     (i = 0 \<or> s ! (i - 1) = 10) \<and> rx_match ops s i ms = Some r"
  by (simp split: if_splits)

lemma rx_match_LitD:
  assumes "rx_match (Lit l # ops) s i ms = Some r"
  shows "drop i s = l @ drop (i + length l) s \<and> rx_match ops s (i + length l) ms = Some r"
proof -
  from assms have eq: "take (length l) (drop i s) = l"
    and r: "rx_match ops s (i + length l) ms = Some r"
    by (simp_all split: if_splits)
  have "drop i s = take (length l) (drop i s) @ drop (length l) (drop i s)"
    by (rule append_take_drop_id [symmetric])
  with eq have "drop i s = l @ drop (i + length l) s" by (simp add: add.commute)
  with r show ?thesis by simp
qed

lemma take_takeWhile_all: "k \<le> length (takeWhile P xs) \<Longrightarrow> list_all P (take k xs)"
  by (induction xs arbitrary: k) (auto simp: take_Cons' split: if_splits)

lemma rx_match_RepD:
  assumes "rx_match (Rep lo c # ops) s i ms = Some r"
  shows "\<exists>w. drop i s = w @ drop (i + length w) s \<and> lo \<le> length w \<and> list_all c w \<and>
             rx_match ops s (i + length w) ms = Some r"
proof -
  let ?run = "takeWhile c (drop i s)"
  from assms obtain k where k: "lo \<le> k" "k \<le> length ?run"
    and r: "rx_match ops s (i + k) ms = Some r"
    by (auto dest!: greedy_SomeD)
  define w where "w = take k (drop i s)"
  have "length ?run \<le> length (drop i s)" by (rule length_takeWhile_le)
  with k(2) have len: "length w = k" by (simp add: w_def)
  have "drop i s = w @ drop k (drop i s)"
    unfolding w_def by (rule append_take_drop_id [symmetric])
  then have d: "drop i s = w @ drop (i + length w) s" by (simp add: len add.commute)
  from k(2) have "list_all c w" unfolding w_def by (rule take_takeWhile_all)
  with d k(1) r len show ?thesis by (intro exI [of _ w]) simp
qed

lemma rx_match_MarkD:
  "rx_match (Mark g # ops) s i ms = Some r \<Longrightarrow> rx_match ops s i (ms(g \<mapsto> i)) = Some r"
  by simp

lemma search_SomeD:
  "search ops s i = Some (st, e, ms) \<Longrightarrow>
     rx_match ops s st Map.empty = Some (e, ms) \<and> i \<le> st \<and> st \<le> length s"
proof (induction ops s i rule: search.induct)
  case (1 ops s i)
  show ?case
  proof (cases "rx_match ops s i Map.empty")
    case None
    with "1.prems" have le: "\<not> length s < i" and r: "search ops s (Suc i) = Some (st, e, ms)"
      by (auto simp: search.simps [of ops s i] split: if_splits)
    from "1.IH" [OF le None r] show ?thesis by simp
  next
    case (Some p)
    with "1.prems" show ?thesis
      by (auto simp: search.simps [of ops s i] split: if_splits)
  qed
qed

lemma search_NoneD:
  "search ops s i = None \<Longrightarrow> i \<le> j \<Longrightarrow> j \<le> length s \<Longrightarrow> rx_match ops s j Map.empty = None"
proof (induction ops s i rule: search.induct)
  case (1 ops s i)
  from "1.prems" have le: "\<not> length s < i" by simp
  show ?case
  proof (cases "rx_match ops s i Map.empty")
    case None
    with "1.prems"(1) le have r: "search ops s (Suc i) = None"
      by (simp add: search.simps [of ops s i])
    show ?thesis
    proof (cases "j = i")
      case True
      with None show ?thesis by simp
    next
      case False
      with "1.prems" have "Suc i \<le> j" by simp
      from "1.IH" [OF le None r this "1.prems"(3)] show ?thesis .
    qed
  next
    case (Some p)
    with "1.prems"(1) le show ?thesis
      by (simp add: search.simps [of ops s i] split: prod.splits)
  qed
qed

lemma findall_from_member:
  "mt \<in> set (findall_from ops s pos) \<Longrightarrow> \<exists>p. search ops s p = Some mt"
proof (induction ops s pos rule: findall_from.induct)
  case (1 ops s pos)
  show ?case
  proof (cases "search ops s pos")
    case None
    with "1.prems" show ?thesis by (simp add: findall_from.simps [of ops s pos])
  next
    case (Some p)
    obtain st e ms where p: "p = (st, e, ms)" by (cases p)
    from "1.prems" Some p have
      "mt = (st, e, ms) \<or> mt \<in> set (findall_from ops s (if st < e then e else Suc e))"
      by (simp add: findall_from.simps [of ops s pos])
    then show ?thesis
    proof
      assume "mt = (st, e, ms)"
      with Some p show ?thesis by blast
    next
      assume "mt \<in> set (findall_from ops s (if st < e then e else Suc e))"
      from "1.IH" [OF Some p [symmetric] refl this] show ?thesis .
    qed
  qed
qed

lemma drop_step: "drop p s = w @ t \<Longrightarrow> drop (p + length w) s = t"
proof -
  assume a: "drop p s = w @ t"
  have "drop (p + length w) s = drop (length w) (drop p s)" by (simp add: add.commute)
  with a show ?thesis by simp
qed

lemma greedy_complete:
  "lo \<le> k \<Longrightarrow> k \<le> n \<Longrightarrow> f k \<noteq> None \<Longrightarrow> greedy f lo n \<noteq> None"
proof (induction f lo n rule: greedy.induct)
  case (1 f lo n)
  show ?case
  proof (cases "f n")
    case (Some r)
    with "1.prems" show ?thesis by (simp add: greedy.simps [of f lo n])
  next
    case None
    with "1.prems" have "k \<noteq> n" by auto
    with "1.prems" have k: "k \<le> n - 1" and n: "n \<noteq> 0" "\<not> n < lo" by auto
    from "1.IH" [OF n(2) None n(1) "1.prems"(1) k "1.prems"(3)] None n
    show ?thesis by (simp add: greedy.simps [of f lo n])
  qed
qed

lemma takeWhile_prefix_length: "list_all c w \<Longrightarrow> length w \<le> length (takeWhile c (w @ t))"
  by (induction w) auto

lemma rx_match_LitI:
  "drop i s = l @ t \<Longrightarrow> rx_match (Lit l # ops) s i ms = rx_match ops s (i + length l) ms"
  by simp

lemma rx_match_RepI:
  assumes "drop i s = w @ t" and "list_all c w" and "lo \<le> length w"
    and "rx_match ops s (i + length w) ms \<noteq> None"
  shows "rx_match (Rep lo c # ops) s i ms \<noteq> None"
proof -
  from assms(1,2) have "length w \<le> length (takeWhile c (drop i s))"
    by (simp add: takeWhile_prefix_length)
  from greedy_complete [of lo "length w" _ "\<lambda>k. rx_match ops s (i + k) ms", OF assms(3) this assms(4)]
  show ?thesis by simp
qed

lemma macro_match_shape:
  assumes m: "rx_match (macro_pattern lib) s i Map.empty = Some (e, ms)"
  shows "\<exists>ws0 ws1 mac ws2 ws3 ws4 ws5.
           (i = 0 \<or> s ! (i - 1) = 10) \<and>
           drop i s = ws0 @ pystr ''#define'' @ ws1 @ mac @ ws2 @ pystr ''__declspec''
             @ ws3 @ pystr ''('' @ ws4 @ pystr ''dllexport'' @ ws5 @ pystr '')''
             @ drop e s \<and>
           list_all is_space ws0 \<and> list_all is_space ws1 \<and> ws1 \<noteq> []
           \<and> list_all (is_word lib) mac \<and> mac \<noteq> []
           \<and> list_all is_space ws2 \<and> ws2 \<noteq> []
           \<and> list_all is_space ws3 \<and> list_all is_space ws4
           \<and> list_all is_space ws5 \<and> group s ms 1 = Some mac"
proof -
  let ?t15 = "[] :: op list"
  let ?t14 = "Lit (pystr '')'') # ?t15"
  let ?t13 = "Rep 0 is_space # ?t14"
  let ?t12 = "Lit (pystr ''dllexport'') # ?t13"
  let ?t11 = "Rep 0 is_space # ?t12"
  let ?t10 = "Lit (pystr ''('') # ?t11"
  let ?t9 = "Rep 0 is_space # ?t10"
  let ?t8 = "Lit (pystr ''__declspec'') # ?t9"
  let ?t7 = "Rep 1 is_space # ?t8"
  let ?t6 = "Mark 1 # ?t7"
  let ?t5 = "Rep 1 (is_word lib) # ?t6"
  let ?t4 = "Mark 0 # ?t5"
  let ?t3 = "Rep 1 is_space # ?t4"
  let ?t2 = "Lit (pystr ''#define'') # ?t3"
  let ?t1 = "Rep 0 is_space # ?t2"
  let ?t0 = "AtBol # ?t1"
  let ?p0 = "i"
  let ?m0 = "Map.empty :: marks"
  from m have m0: "rx_match ?t0 s ?p0 ?m0 = Some (e, ms)"
    by (simp add: macro_pattern_def)
  from rx_match_AtBolD [OF m0] have bol: "i = 0 \<or> s ! (i - 1) = 10"
    and m1: "rx_match ?t1 s ?p0 ?m0 = Some (e, ms)" by simp_all
  from rx_match_RepD [OF m1] obtain ws0
    where d1: "drop ?p0 s = ws0 @ drop (?p0 + length ws0) s"
      and c1: "list_all is_space ws0" and n1: "0 \<le> length ws0"
      and m2: "rx_match ?t2 s (?p0 + length ws0) ?m0 = Some (e, ms)" by blast
  let ?p1 = "?p0 + length ws0"
  let ?p2 = "?p1 + length (pystr ''#define'')"
  from rx_match_LitD [OF m2] have d2: "drop ?p1 s = pystr ''#define'' @ drop ?p2 s"
    and m3: "rx_match ?t3 s ?p2 ?m0 = Some (e, ms)" by simp_all
  from rx_match_RepD [OF m3] obtain ws1
    where d3: "drop ?p2 s = ws1 @ drop (?p2 + length ws1) s"
      and c3: "list_all is_space ws1" and n3: "1 \<le> length ws1"
      and m4: "rx_match ?t4 s (?p2 + length ws1) ?m0 = Some (e, ms)" by blast
  let ?p3 = "?p2 + length ws1"
  let ?m1 = "?m0(0 \<mapsto> ?p3)"
  from rx_match_MarkD [OF m4] have m5: "rx_match ?t5 s ?p3 ?m1 = Some (e, ms)" .
  from rx_match_RepD [OF m5] obtain mac
    where d5: "drop ?p3 s = mac @ drop (?p3 + length mac) s"
      and c5: "list_all (is_word lib) mac" and n5: "1 \<le> length mac"
      and m6: "rx_match ?t6 s (?p3 + length mac) ?m1 = Some (e, ms)" by blast
  let ?p4 = "?p3 + length mac"
  let ?m2 = "?m1(1 \<mapsto> ?p4)"
  from rx_match_MarkD [OF m6] have m7: "rx_match ?t7 s ?p4 ?m2 = Some (e, ms)" .
  from rx_match_RepD [OF m7] obtain ws2
    where d7: "drop ?p4 s = ws2 @ drop (?p4 + length ws2) s"
      and c7: "list_all is_space ws2" and n7: "1 \<le> length ws2"
      and m8: "rx_match ?t8 s (?p4 + length ws2) ?m2 = Some (e, ms)" by blast
  let ?p5 = "?p4 + length ws2"
  let ?p6 = "?p5 + length (pystr ''__declspec'')"
  from rx_match_LitD [OF m8] have d8: "drop ?p5 s = pystr ''__declspec'' @ drop ?p6 s"
    and m9: "rx_match ?t9 s ?p6 ?m2 = Some (e, ms)" by simp_all
  from rx_match_RepD [OF m9] obtain ws3
    where d9: "drop ?p6 s = ws3 @ drop (?p6 + length ws3) s"
      and c9: "list_all is_space ws3" and n9: "0 \<le> length ws3"
      and m10: "rx_match ?t10 s (?p6 + length ws3) ?m2 = Some (e, ms)" by blast
  let ?p7 = "?p6 + length ws3"
  let ?p8 = "?p7 + length (pystr ''('')"
  from rx_match_LitD [OF m10] have d10: "drop ?p7 s = pystr ''('' @ drop ?p8 s"
    and m11: "rx_match ?t11 s ?p8 ?m2 = Some (e, ms)" by simp_all
  from rx_match_RepD [OF m11] obtain ws4
    where d11: "drop ?p8 s = ws4 @ drop (?p8 + length ws4) s"
      and c11: "list_all is_space ws4" and n11: "0 \<le> length ws4"
      and m12: "rx_match ?t12 s (?p8 + length ws4) ?m2 = Some (e, ms)" by blast
  let ?p9 = "?p8 + length ws4"
  let ?p10 = "?p9 + length (pystr ''dllexport'')"
  from rx_match_LitD [OF m12] have d12: "drop ?p9 s = pystr ''dllexport'' @ drop ?p10 s"
    and m13: "rx_match ?t13 s ?p10 ?m2 = Some (e, ms)" by simp_all
  from rx_match_RepD [OF m13] obtain ws5
    where d13: "drop ?p10 s = ws5 @ drop (?p10 + length ws5) s"
      and c13: "list_all is_space ws5" and n13: "0 \<le> length ws5"
      and m14: "rx_match ?t14 s (?p10 + length ws5) ?m2 = Some (e, ms)" by blast
  let ?p11 = "?p10 + length ws5"
  let ?p12 = "?p11 + length (pystr '')'')"
  from rx_match_LitD [OF m14] have d14: "drop ?p11 s = pystr '')'' @ drop ?p12 s"
    and m15: "rx_match ?t15 s ?p12 ?m2 = Some (e, ms)" by simp_all
  from m15 have e: "e = ?p12" and ms: "ms = ?m2" by simp_all
  have whole: "drop i s = ws0 @ pystr ''#define'' @ ws1 @ mac @ ws2
      @ pystr ''__declspec'' @ ws3 @ pystr ''('' @ ws4 @ pystr ''dllexport'' @ ws5
      @ pystr '')'' @ drop e s"
    unfolding e d1 d2 d3 d5 d7 d8 d9 d10 d11 d12 d13 d14 by simp
  have g1: "group s ms 1 = Some mac"
    unfolding ms group_def using slice_of_drop [OF d5] by simp
  from n3 have ne3: "ws1 \<noteq> []" by auto
  from n5 have ne5: "mac \<noteq> []" by auto
  from n7 have ne7: "ws2 \<noteq> []" by auto
  show ?thesis
    using bol whole c1 c3 c5 c7 c9 c11 c13 ne3 ne5 ne7 g1
    by blast
qed

lemma func_match_shape:
  assumes m: "rx_match (func_pattern lib mac) s i Map.empty = Some (e, ms)"
  shows "\<exists>ws0 ws1 ret ws2 nm ws3 ar ws4.
           (i = 0 \<or> s ! (i - 1) = 10) \<and>
           drop i s = ws0 @ mac @ ws1 @ ret @ ws2 @ nm @ ws3 @ pystr ''('' @ ar
             @ pystr '')'' @ ws4 @ pystr ''{'' @ drop e s \<and>
           list_all is_space ws0 \<and> list_all is_space ws1 \<and> ws1 \<noteq> []
           \<and> list_all (is_ret_char lib) ret \<and> ret \<noteq> []
           \<and> list_all is_space ws2 \<and> ws2 \<noteq> []
           \<and> list_all (is_word lib) nm \<and> nm \<noteq> []
           \<and> list_all is_space ws3 \<and> list_all not_rparen ar
           \<and> list_all is_space ws4 \<and> group s ms 1 = Some ret
           \<and> group s ms 2 = Some nm \<and> group s ms 3 = Some ar"
proof -
  let ?t19 = "[] :: op list"
  let ?t18 = "Lit (pystr ''{'') # ?t19"
  let ?t17 = "Rep 0 is_space # ?t18"
  let ?t16 = "Lit (pystr '')'') # ?t17"
  let ?t15 = "Mark 5 # ?t16"
  let ?t14 = "Rep 0 not_rparen # ?t15"
  let ?t13 = "Mark 4 # ?t14"
  let ?t12 = "Lit (pystr ''('') # ?t13"
  let ?t11 = "Rep 0 is_space # ?t12"
  let ?t10 = "Mark 3 # ?t11"
  let ?t9 = "Rep 1 (is_word lib) # ?t10"
  let ?t8 = "Mark 2 # ?t9"
  let ?t7 = "Rep 1 is_space # ?t8"
  let ?t6 = "Mark 1 # ?t7"
  let ?t5 = "Rep 1 (is_ret_char lib) # ?t6"
  let ?t4 = "Mark 0 # ?t5"
  let ?t3 = "Rep 1 is_space # ?t4"
  let ?t2 = "Lit mac # ?t3"
  let ?t1 = "Rep 0 is_space # ?t2"
  let ?t0 = "AtBol # ?t1"
  let ?p0 = "i"
  let ?m0 = "Map.empty :: marks"
  from m have m0: "rx_match ?t0 s ?p0 ?m0 = Some (e, ms)"
    by (simp add: func_pattern_def)
  from rx_match_AtBolD [OF m0] have bol: "i = 0 \<or> s ! (i - 1) = 10"
    and m1: "rx_match ?t1 s ?p0 ?m0 = Some (e, ms)" by simp_all
  from rx_match_RepD [OF m1] obtain ws0
    where d1: "drop ?p0 s = ws0 @ drop (?p0 + length ws0) s"
      and c1: "list_all is_space ws0" and n1: "0 \<le> length ws0"
      and m2: "rx_match ?t2 s (?p0 + length ws0) ?m0 = Some (e, ms)" by blast
  let ?p1 = "?p0 + length ws0"
  let ?p2 = "?p1 + length mac"
  from rx_match_LitD [OF m2] have d2: "drop ?p1 s = mac @ drop ?p2 s"
    and m3: "rx_match ?t3 s ?p2 ?m0 = Some (e, ms)" by simp_all
  from rx_match_RepD [OF m3] obtain ws1
    where d3: "drop ?p2 s = ws1 @ drop (?p2 + length ws1) s"
      and c3: "list_all is_space ws1" and n3: "1 \<le> length ws1"
      and m4: "rx_match ?t4 s (?p2 + length ws1) ?m0 = Some (e, ms)" by blast
  let ?p3 = "?p2 + length ws1"
  let ?m1 = "?m0(0 \<mapsto> ?p3)"
  from rx_match_MarkD [OF m4] have m5: "rx_match ?t5 s ?p3 ?m1 = Some (e, ms)" .
  from rx_match_RepD [OF m5] obtain ret
    where d5: "drop ?p3 s = ret @ drop (?p3 + length ret) s"
      and c5: "list_all (is_ret_char lib) ret" and n5: "1 \<le> length ret"
      and m6: "rx_match ?t6 s (?p3 + length ret) ?m1 = Some (e, ms)" by blast
  let ?p4 = "?p3 + length ret"
  let ?m2 = "?m1(1 \<mapsto> ?p4)"
  from rx_match_MarkD [OF m6] have m7: "rx_match ?t7 s ?p4 ?m2 = Some (e, ms)" .
  from rx_match_RepD [OF m7] obtain ws2
    where d7: "drop ?p4 s = ws2 @ drop (?p4 + length ws2) s"
      and c7: "list_all is_space ws2" and n7: "1 \<le> length ws2"
      and m8: "rx_match ?t8 s (?p4 + length ws2) ?m2 = Some (e, ms)" by blast
  let ?p5 = "?p4 + length ws2"
  let ?m3 = "?m2(2 \<mapsto> ?p5)"
  from rx_match_MarkD [OF m8] have m9: "rx_match ?t9 s ?p5 ?m3 = Some (e, ms)" .
  from rx_match_RepD [OF m9] obtain nm
    where d9: "drop ?p5 s = nm @ drop (?p5 + length nm) s"
      and c9: "list_all (is_word lib) nm" and n9: "1 \<le> length nm"
      and m10: "rx_match ?t10 s (?p5 + length nm) ?m3 = Some (e, ms)" by blast
  let ?p6 = "?p5 + length nm"
  let ?m4 = "?m3(3 \<mapsto> ?p6)"
  from rx_match_MarkD [OF m10] have m11: "rx_match ?t11 s ?p6 ?m4 = Some (e, ms)" .
  from rx_match_RepD [OF m11] obtain ws3
    where d11: "drop ?p6 s = ws3 @ drop (?p6 + length ws3) s"
      and c11: "list_all is_space ws3" and n11: "0 \<le> length ws3"
      and m12: "rx_match ?t12 s (?p6 + length ws3) ?m4 = Some (e, ms)" by blast
  let ?p7 = "?p6 + length ws3"
  let ?p8 = "?p7 + length (pystr ''('')"
  from rx_match_LitD [OF m12] have d12: "drop ?p7 s = pystr ''('' @ drop ?p8 s"
    and m13: "rx_match ?t13 s ?p8 ?m4 = Some (e, ms)" by simp_all
  let ?m5 = "?m4(4 \<mapsto> ?p8)"
  from rx_match_MarkD [OF m13] have m14: "rx_match ?t14 s ?p8 ?m5 = Some (e, ms)" .
  from rx_match_RepD [OF m14] obtain ar
    where d14: "drop ?p8 s = ar @ drop (?p8 + length ar) s"
      and c14: "list_all not_rparen ar" and n14: "0 \<le> length ar"
      and m15: "rx_match ?t15 s (?p8 + length ar) ?m5 = Some (e, ms)" by blast
  let ?p9 = "?p8 + length ar"
  let ?m6 = "?m5(5 \<mapsto> ?p9)"
  from rx_match_MarkD [OF m15] have m16: "rx_match ?t16 s ?p9 ?m6 = Some (e, ms)" .
  let ?p10 = "?p9 + length (pystr '')'')"
  from rx_match_LitD [OF m16] have d16: "drop ?p9 s = pystr '')'' @ drop ?p10 s"
    and m17: "rx_match ?t17 s ?p10 ?m6 = Some (e, ms)" by simp_all
  from rx_match_RepD [OF m17] obtain ws4
    where d17: "drop ?p10 s = ws4 @ drop (?p10 + length ws4) s"
      and c17: "list_all is_space ws4" and n17: "0 \<le> length ws4"
      and m18: "rx_match ?t18 s (?p10 + length ws4) ?m6 = Some (e, ms)" by blast
  let ?p11 = "?p10 + length ws4"
  let ?p12 = "?p11 + length (pystr ''{'')"
  from rx_match_LitD [OF m18] have d18: "drop ?p11 s = pystr ''{'' @ drop ?p12 s"
    and m19: "rx_match ?t19 s ?p12 ?m6 = Some (e, ms)" by simp_all
  from m19 have e: "e = ?p12" and ms: "ms = ?m6" by simp_all
  have whole: "drop i s = ws0 @ mac @ ws1 @ ret @ ws2 @ nm @ ws3 @ pystr ''('' @ ar
      @ pystr '')'' @ ws4 @ pystr ''{'' @ drop e s"
    unfolding e d1 d2 d3 d5 d7 d9 d11 d12 d14 d16 d17 d18 by simp
  have g1: "group s ms 1 = Some ret"
    unfolding ms group_def using slice_of_drop [OF d5] by simp
  have g2: "group s ms 2 = Some nm"
    unfolding ms group_def using slice_of_drop [OF d9] by simp
  have g3: "group s ms 3 = Some ar"
    unfolding ms group_def using slice_of_drop [OF d14] by simp
  from n3 have ne3: "ws1 \<noteq> []" by auto
  from n5 have ne5: "ret \<noteq> []" by auto
  from n7 have ne7: "ws2 \<noteq> []" by auto
  from n9 have ne9: "nm \<noteq> []" by auto
  show ?thesis
    using bol whole c1 c3 c5 c7 c9 c11 c14 c17 ne3 ne5 ne7 ne9 g1 g2 g3
    by blast
qed

lemma macro_match_complete:
  assumes bol: "i = 0 \<or> s ! (i - 1) = 10"
    and d0: "drop i s = ws0 @ pystr ''#define'' @ ws1 @ mac @ ws2 @ pystr ''__declspec''
           @ ws3 @ pystr ''('' @ ws4 @ pystr ''dllexport'' @ ws5 @ pystr '')'' @ t"
    and c1: "list_all is_space ws0" and n1: "0 \<le> length ws0"
    and c3: "list_all is_space ws1" and n3: "1 \<le> length ws1"
    and c5: "list_all (is_word lib) mac" and n5: "1 \<le> length mac"
    and c7: "list_all is_space ws2" and n7: "1 \<le> length ws2"
    and c9: "list_all is_space ws3" and n9: "0 \<le> length ws3"
    and c11: "list_all is_space ws4" and n11: "0 \<le> length ws4"
    and c13: "list_all is_space ws5" and n13: "0 \<le> length ws5"
  shows "rx_match (macro_pattern lib) s i ms \<noteq> None"
proof -
  let ?t15 = "[] :: op list"
  let ?t14 = "Lit (pystr '')'') # ?t15"
  let ?t13 = "Rep 0 is_space # ?t14"
  let ?t12 = "Lit (pystr ''dllexport'') # ?t13"
  let ?t11 = "Rep 0 is_space # ?t12"
  let ?t10 = "Lit (pystr ''('') # ?t11"
  let ?t9 = "Rep 0 is_space # ?t10"
  let ?t8 = "Lit (pystr ''__declspec'') # ?t9"
  let ?t7 = "Rep 1 is_space # ?t8"
  let ?t6 = "Mark 1 # ?t7"
  let ?t5 = "Rep 1 (is_word lib) # ?t6"
  let ?t4 = "Mark 0 # ?t5"
  let ?t3 = "Rep 1 is_space # ?t4"
  let ?t2 = "Lit (pystr ''#define'') # ?t3"
  let ?t1 = "Rep 0 is_space # ?t2"
  let ?t0 = "AtBol # ?t1"
  let ?p0 = "i"
  let ?p1 = "?p0 + length ws0"
  from drop_step [OF d0] have d1: "drop ?p1 s = pystr ''#define'' @ ws1 @ mac @ ws2
      @ pystr ''__declspec'' @ ws3 @ pystr ''('' @ ws4 @ pystr ''dllexport'' @ ws5
      @ pystr '')'' @ t" .
  let ?p2 = "?p1 + length (pystr ''#define'')"
  from drop_step [OF d1] have d2: "drop ?p2 s = ws1 @ mac @ ws2 @ pystr ''__declspec''
      @ ws3 @ pystr ''('' @ ws4 @ pystr ''dllexport'' @ ws5 @ pystr '')'' @ t" .
  let ?p3 = "?p2 + length ws1"
  from drop_step [OF d2] have d3: "drop ?p3 s = mac @ ws2 @ pystr ''__declspec'' @ ws3
      @ pystr ''('' @ ws4 @ pystr ''dllexport'' @ ws5 @ pystr '')'' @ t" .
  let ?p4 = "?p3 + length mac"
  from drop_step [OF d3] have d4: "drop ?p4 s = ws2 @ pystr ''__declspec'' @ ws3
      @ pystr ''('' @ ws4 @ pystr ''dllexport'' @ ws5 @ pystr '')'' @ t" .
  let ?p5 = "?p4 + length ws2"
  from drop_step [OF d4] have d5: "drop ?p5 s = pystr ''__declspec'' @ ws3 @ pystr ''(''
      @ ws4 @ pystr ''dllexport'' @ ws5 @ pystr '')'' @ t" .
  let ?p6 = "?p5 + length (pystr ''__declspec'')"
  from drop_step [OF d5] have d6: "drop ?p6 s = ws3 @ pystr ''('' @ ws4
      @ pystr ''dllexport'' @ ws5 @ pystr '')'' @ t" .
  let ?p7 = "?p6 + length ws3"
  from drop_step [OF d6] have d7: "drop ?p7 s = pystr ''('' @ ws4 @ pystr ''dllexport''
      @ ws5 @ pystr '')'' @ t" .
  let ?p8 = "?p7 + length (pystr ''('')"
  from drop_step [OF d7] have d8: "drop ?p8 s = ws4 @ pystr ''dllexport'' @ ws5
      @ pystr '')'' @ t" .
  let ?p9 = "?p8 + length ws4"
  from drop_step [OF d8] have d9: "drop ?p9 s = pystr ''dllexport'' @ ws5 @ pystr '')''
      @ t" .
  let ?p10 = "?p9 + length (pystr ''dllexport'')"
  from drop_step [OF d9] have d10: "drop ?p10 s = ws5 @ pystr '')'' @ t" .
  let ?p11 = "?p10 + length ws5"
  from drop_step [OF d10] have d11: "drop ?p11 s = pystr '')'' @ t" .
  let ?p12 = "?p11 + length (pystr '')'')"
  from drop_step [OF d11] have d12: "drop ?p12 s = t" .
  have r15: "rx_match ?t15 s ?p12 ms \<noteq> None" for ms by simp
  have r14: "rx_match ?t14 s ?p11 ms \<noteq> None" for ms
    using rx_match_LitI [OF d11] r15 by simp
  have r13: "rx_match ?t13 s ?p10 ms \<noteq> None" for ms
    using d10 c13 n13 r14 by (rule rx_match_RepI)
  have r12: "rx_match ?t12 s ?p9 ms \<noteq> None" for ms
    using rx_match_LitI [OF d9] r13 by simp
  have r11: "rx_match ?t11 s ?p8 ms \<noteq> None" for ms
    using d8 c11 n11 r12 by (rule rx_match_RepI)
  have r10: "rx_match ?t10 s ?p7 ms \<noteq> None" for ms
    using rx_match_LitI [OF d7] r11 by simp
  have r9: "rx_match ?t9 s ?p6 ms \<noteq> None" for ms
    using d6 c9 n9 r10 by (rule rx_match_RepI)
  have r8: "rx_match ?t8 s ?p5 ms \<noteq> None" for ms
    using rx_match_LitI [OF d5] r9 by simp
  have r7: "rx_match ?t7 s ?p4 ms \<noteq> None" for ms
    using d4 c7 n7 r8 by (rule rx_match_RepI)
  have r6: "rx_match ?t6 s ?p4 ms \<noteq> None" for ms
    using r7 by simp
  have r5: "rx_match ?t5 s ?p3 ms \<noteq> None" for ms
    using d3 c5 n5 r6 by (rule rx_match_RepI)
  have r4: "rx_match ?t4 s ?p3 ms \<noteq> None" for ms
    using r5 by simp
  have r3: "rx_match ?t3 s ?p2 ms \<noteq> None" for ms
    using d2 c3 n3 r4 by (rule rx_match_RepI)
  have r2: "rx_match ?t2 s ?p1 ms \<noteq> None" for ms
    using rx_match_LitI [OF d1] r3 by simp
  have r1: "rx_match ?t1 s ?p0 ms \<noteq> None" for ms
    using d0 c1 n1 r2 by (rule rx_match_RepI)
  have r0: "rx_match ?t0 s ?p0 ms \<noteq> None" for ms
    using bol r1 by simp
  from r0 show ?thesis by (simp add: macro_pattern_def)
qed

lemma func_match_complete:
  assumes bol: "i = 0 \<or> s ! (i - 1) = 10"
    and d0: "drop i s = ws0 @ mac @ ws1 @ ret @ ws2 @ nm @ ws3 @ pystr ''('' @ ar
           @ pystr '')'' @ ws4 @ pystr ''{'' @ t"
    and c1: "list_all is_space ws0" and n1: "0 \<le> length ws0"
    and c3: "list_all is_space ws1" and n3: "1 \<le> length ws1"
    and c5: "list_all (is_ret_char lib) ret" and n5: "1 \<le> length ret"
    and c7: "list_all is_space ws2" and n7: "1 \<le> length ws2"
    and c9: "list_all (is_word lib) nm" and n9: "1 \<le> length nm"
    and c11: "list_all is_space ws3" and n11: "0 \<le> length ws3"
    and c14: "list_all not_rparen ar" and n14: "0 \<le> length ar"
    and c17: "list_all is_space ws4" and n17: "0 \<le> length ws4"
  shows "rx_match (func_pattern lib mac) s i ms \<noteq> None"
proof -
  let ?t19 = "[] :: op list"
  let ?t18 = "Lit (pystr ''{'') # ?t19"
  let ?t17 = "Rep 0 is_space # ?t18"
  let ?t16 = "Lit (pystr '')'') # ?t17"
  let ?t15 = "Mark 5 # ?t16"
  let ?t14 = "Rep 0 not_rparen # ?t15"
  let ?t13 = "Mark 4 # ?t14"
  let ?t12 = "Lit (pystr ''('') # ?t13"
  let ?t11 = "Rep 0 is_space # ?t12"
  let ?t10 = "Mark 3 # ?t11"
  let ?t9 = "Rep 1 (is_word lib) # ?t10"
  let ?t8 = "Mark 2 # ?t9"
  let ?t7 = "Rep 1 is_space # ?t8"
  let ?t6 = "Mark 1 # ?t7"
  let ?t5 = "Rep 1 (is_ret_char lib) # ?t6"
  let ?t4 = "Mark 0 # ?t5"
  let ?t3 = "Rep 1 is_space # ?t4"
  let ?t2 = "Lit mac # ?t3"
  let ?t1 = "Rep 0 is_space # ?t2"
  let ?t0 = "AtBol # ?t1"
  let ?p0 = "i"
  let ?p1 = "?p0 + length ws0"
  from drop_step [OF d0] have d1: "drop ?p1 s = mac @ ws1 @ ret @ ws2 @ nm @ ws3
      @ pystr ''('' @ ar @ pystr '')'' @ ws4 @ pystr ''{'' @ t" .
  let ?p2 = "?p1 + length mac"
  from drop_step [OF d1] have d2: "drop ?p2 s = ws1 @ ret @ ws2 @ nm @ ws3 @ pystr ''(''
      @ ar @ pystr '')'' @ ws4 @ pystr ''{'' @ t" .
  let ?p3 = "?p2 + length ws1"
  from drop_step [OF d2] have d3: "drop ?p3 s = ret @ ws2 @ nm @ ws3 @ pystr ''('' @ ar
      @ pystr '')'' @ ws4 @ pystr ''{'' @ t" .
  let ?p4 = "?p3 + length ret"
  from drop_step [OF d3] have d4: "drop ?p4 s = ws2 @ nm @ ws3 @ pystr ''('' @ ar
      @ pystr '')'' @ ws4 @ pystr ''{'' @ t" .
  let ?p5 = "?p4 + length ws2"
  from drop_step [OF d4] have d5: "drop ?p5 s = nm @ ws3 @ pystr ''('' @ ar
      @ pystr '')'' @ ws4 @ pystr ''{'' @ t" .
  let ?p6 = "?p5 + length nm"
  from drop_step [OF d5] have d6: "drop ?p6 s = ws3 @ pystr ''('' @ ar @ pystr '')''
      @ ws4 @ pystr ''{'' @ t" .
  let ?p7 = "?p6 + length ws3"
  from drop_step [OF d6] have d7: "drop ?p7 s = pystr ''('' @ ar @ pystr '')'' @ ws4
      @ pystr ''{'' @ t" .
  let ?p8 = "?p7 + length (pystr ''('')"
  from drop_step [OF d7] have d8: "drop ?p8 s = ar @ pystr '')'' @ ws4 @ pystr ''{'' @ t" .
  let ?p9 = "?p8 + length ar"
  from drop_step [OF d8] have d9: "drop ?p9 s = pystr '')'' @ ws4 @ pystr ''{'' @ t" .
  let ?p10 = "?p9 + length (pystr '')'')"
  from drop_step [OF d9] have d10: "drop ?p10 s = ws4 @ pystr ''{'' @ t" .
  let ?p11 = "?p10 + length ws4"
  from drop_step [OF d10] have d11: "drop ?p11 s = pystr ''{'' @ t" .
  let ?p12 = "?p11 + length (pystr ''{'')"
  from drop_step [OF d11] have d12: "drop ?p12 s = t" .
  have r19: "rx_match ?t19 s ?p12 ms \<noteq> None" for ms by simp
  have r18: "rx_match ?t18 s ?p11 ms \<noteq> None" for ms
    using rx_match_LitI [OF d11] r19 by simp
  have r17: "rx_match ?t17 s ?p10 ms \<noteq> None" for ms
    using d10 c17 n17 r18 by (rule rx_match_RepI)
  have r16: "rx_match ?t16 s ?p9 ms \<noteq> None" for ms
    using rx_match_LitI [OF d9] r17 by simp
  have r15: "rx_match ?t15 s ?p9 ms \<noteq> None" for ms
    using r16 by simp
  have r14: "rx_match ?t14 s ?p8 ms \<noteq> None" for ms
    using d8 c14 n14 r15 by (rule rx_match_RepI)
  have r13: "rx_match ?t13 s ?p8 ms \<noteq> None" for ms
    using r14 by simp
  have r12: "rx_match ?t12 s ?p7 ms \<noteq> None" for ms
    using rx_match_LitI [OF d7] r13 by simp
  have r11: "rx_match ?t11 s ?p6 ms \<noteq> None" for ms
    using d6 c11 n11 r12 by (rule rx_match_RepI)
  have r10: "rx_match ?t10 s ?p6 ms \<noteq> None" for ms
    using r11 by simp
  have r9: "rx_match ?t9 s ?p5 ms \<noteq> None" for ms
    using d5 c9 n9 r10 by (rule rx_match_RepI)
  have r8: "rx_match ?t8 s ?p5 ms \<noteq> None" for ms
    using r9 by simp
  have r7: "rx_match ?t7 s ?p4 ms \<noteq> None" for ms
    using d4 c7 n7 r8 by (rule rx_match_RepI)
  have r6: "rx_match ?t6 s ?p4 ms \<noteq> None" for ms
    using r7 by simp
  have r5: "rx_match ?t5 s ?p3 ms \<noteq> None" for ms
    using d3 c5 n5 r6 by (rule rx_match_RepI)
  have r4: "rx_match ?t4 s ?p3 ms \<noteq> None" for ms
    using r5 by simp
  have r3: "rx_match ?t3 s ?p2 ms \<noteq> None" for ms
    using d2 c3 n3 r4 by (rule rx_match_RepI)
  have r2: "rx_match ?t2 s ?p1 ms \<noteq> None" for ms
    using rx_match_LitI [OF d1] r3 by simp
  have r1: "rx_match ?t1 s ?p0 ms \<noteq> None" for ms
    using d0 c1 n1 r2 by (rule rx_match_RepI)
  have r0: "rx_match ?t0 s ?p0 ms \<noteq> None" for ms
    using bol r1 by simp
  from r0 show ?thesis by (simp add: func_pattern_def)
qed

lemma take_line_start:
  assumes "st \<le> length s" and "st = 0 \<or> s ! (st - 1) = 10"
  shows "take st s = [] \<or> last (take st s) = 10"
proof (cases "st = 0")
  case True
  then show ?thesis by simp
next
  case False
  with assms(1) have ne: "take st s \<noteq> []" and len: "length (take st s) = st" by auto
  from ne have "last (take st s) = take st s ! (length (take st s) - 1)"
    by (rule last_conv_nth)
  also from False assms(1) have "\<dots> = s ! (st - 1)" by (simp add: min_def)
  finally show ?thesis using assms(2) False by simp
qed

lemma search_macro_sound:
  assumes "search (macro_pattern lib) s i = Some (st, e, ms)"
  shows "\<exists>mac t. group s ms 1 = Some mac \<and> macro_definition lib mac t \<and>
                 occurs_at_line_start t s"
proof -
  from search_SomeD [OF assms] have m: "rx_match (macro_pattern lib) s st Map.empty = Some (e, ms)"
    and st: "st \<le> length s" by simp_all
  from macro_match_shape [OF m] obtain ws0 ws1 mac ws2 ws3 ws4 ws5 where
    bol: "st = 0 \<or> s ! (st - 1) = 10"
    and d: "drop st s = ws0 @ pystr ''#define'' @ ws1 @ mac @ ws2 @ pystr ''__declspec'' @ ws3 @
              pystr ''('' @ ws4 @ pystr ''dllexport'' @ ws5 @ pystr '')'' @ drop e s"
    and c: "list_all is_space ws0" "list_all is_space ws1" "ws1 \<noteq> []"
      "list_all (is_word lib) mac" "mac \<noteq> []" "list_all is_space ws2" "ws2 \<noteq> []"
      "list_all is_space ws3" "list_all is_space ws4" "list_all is_space ws5"
    and g: "group s ms 1 = Some mac"
    by blast
  let ?t = "ws0 @ pystr ''#define'' @ ws1 @ mac @ ws2 @ pystr ''__declspec'' @ ws3 @
              pystr ''('' @ ws4 @ pystr ''dllexport'' @ ws5 @ pystr '')''"
  have "s = take st s @ drop st s" by simp
  with d have s: "s = take st s @ ?t @ drop e s" by simp
  from st bol have "take st s = [] \<or> last (take st s) = 10"
    by (rule take_line_start)
  with s have "occurs_at_line_start ?t s"
    unfolding occurs_at_line_start_def by blast
  moreover from c have "macro_definition lib mac ?t"
    unfolding macro_definition_def by blast
  ultimately show ?thesis using g by blast
qed

lemma line_start_position:
  assumes "s = pre @ rest" and "pre = [] \<or> last pre = 10"
  shows "length pre = 0 \<or> s ! (length pre - 1) = 10"
proof (cases "pre = []")
  case True
  then show ?thesis by simp
next
  case False
  with assms(2) have "last pre = 10" by simp
  with False have "pre ! (length pre - 1) = 10" by (simp add: last_conv_nth)
  moreover from False have "length pre - 1 < length pre" by simp
  ultimately show ?thesis using assms(1) by (simp add: nth_append)
qed

lemma search_macro_complete:
  assumes "macro_definition lib mac t" and "occurs_at_line_start t s"
  shows "search (macro_pattern lib) s 0 \<noteq> None"
proof
  assume none: "search (macro_pattern lib) s 0 = None"
  from assms(2) obtain pre post where s: "s = pre @ t @ post"
    and pre: "pre = [] \<or> last pre = 10"
    unfolding occurs_at_line_start_def by blast
  from assms(1) obtain ws0 ws1 ws2 ws3 ws4 ws5 where
    t: "t = ws0 @ pystr ''#define'' @ ws1 @ mac @ ws2 @ pystr ''__declspec'' @ ws3 @
              pystr ''('' @ ws4 @ pystr ''dllexport'' @ ws5 @ pystr '')''"
    and c: "list_all is_space ws0" "list_all is_space ws1" "ws1 \<noteq> []"
      "list_all (is_word lib) mac" "mac \<noteq> []" "list_all is_space ws2" "ws2 \<noteq> []"
      "list_all is_space ws3" "list_all is_space ws4" "list_all is_space ws5"
    unfolding macro_definition_def by blast
  from line_start_position [OF s pre]
  have bol: "length pre = 0 \<or> s ! (length pre - 1) = 10" .
  from s t have d: "drop (length pre) s = ws0 @ pystr ''#define'' @ ws1 @ mac @ ws2 @
      pystr ''__declspec'' @ ws3 @ pystr ''('' @ ws4 @ pystr ''dllexport'' @ ws5 @
      pystr '')'' @ post"
    by simp
  from c have n: "0 \<le> length ws0" "1 \<le> length ws1" "1 \<le> length mac" "1 \<le> length ws2"
    "0 \<le> length ws3" "0 \<le> length ws4" "0 \<le> length ws5"
    by (simp_all add: Suc_le_eq)
  have "rx_match (macro_pattern lib) s (length pre) Map.empty \<noteq> None"
    by (rule macro_match_complete [OF bol d c(1) n(1) c(2) n(2) c(4) n(3) c(6) n(4) c(8) n(5)
          c(9) n(6) c(10) n(7)])
  moreover from s have "length pre \<le> length s" by simp
  ultimately show False using search_NoneD [OF none, of "length pre"] by simp
qed

lemma findall_func_sound:
  assumes "(st, e, ms) \<in> set (findall (func_pattern lib mac) s)"
  shows "\<exists>t. function_definition lib mac (group_str s ms 1) (group_str s ms 2)
                (group_str s ms 3) t \<and> occurs_at_line_start t s"
proof -
  from assms obtain p where "search (func_pattern lib mac) s p = Some (st, e, ms)"
    unfolding findall_def by (blast dest: findall_from_member)
  from search_SomeD [OF this] have m: "rx_match (func_pattern lib mac) s st Map.empty = Some (e, ms)"
    and st: "st \<le> length s" by simp_all
  from func_match_shape [OF m] obtain ws0 ws1 ret ws2 nm ws3 ar ws4 where
    bol: "st = 0 \<or> s ! (st - 1) = 10"
    and d: "drop st s = ws0 @ mac @ ws1 @ ret @ ws2 @ nm @ ws3 @ pystr ''('' @ ar @
              pystr '')'' @ ws4 @ pystr ''{'' @ drop e s"
    and c: "list_all is_space ws0" "list_all is_space ws1" "ws1 \<noteq> []"
      "list_all (is_ret_char lib) ret" "ret \<noteq> []" "list_all is_space ws2" "ws2 \<noteq> []"
      "list_all (is_word lib) nm" "nm \<noteq> []" "list_all is_space ws3"
      "list_all not_rparen ar" "list_all is_space ws4"
    and g: "group s ms 1 = Some ret" "group s ms 2 = Some nm" "group s ms 3 = Some ar"
    by blast
  let ?t = "ws0 @ mac @ ws1 @ ret @ ws2 @ nm @ ws3 @ pystr ''('' @ ar @
              pystr '')'' @ ws4 @ pystr ''{''"
  have "s = take st s @ drop st s" by simp
  with d have s: "s = take st s @ ?t @ drop e s" by simp
  from st bol have "take st s = [] \<or> last (take st s) = 10"
    by (rule take_line_start)
  with s have "occurs_at_line_start ?t s"
    unfolding occurs_at_line_start_def by blast
  moreover from c have "function_definition lib mac ret nm ar ?t"
    unfolding function_definition_def by blast
  ultimately show ?thesis using g by (auto simp: group_str_def)
qed

section \<open>Properties of ConfigLookup\<close>

text \<open>
  Claim C1. When the configuration decodes to an object and the first label is not one
  of its keys, the run prints nothing and leaves with status 1, whatever the later
  labels are: no later label is looked at, even one that is a key.
\<close>

theorem first_label_absent_exits_1:
  assumes "files w config_path = Inr t"
    and "json_loads lib t = Some (JObj kvs)"
    and "label \<notin> fst ` set kvs"
  shows "ConfigLookup lib (label # rest) w = \<lparr>trace = [OpenRead config_path], exit_code = 1\<rparr>
         \<and> stdout_of (trace (ConfigLookup lib (label # rest) w)) = []"
proof -
  from assms(3) have "map_of kvs label = None" by (simp add: map_of_eq_None_iff)
  then have "py_contains (JObj kvs) label = Inr False" by (simp add: py_contains_def)
  with assms(1,2) show ?thesis by (simp add: ConfigLookup_def)
qed

text \<open>
  The configuration \<^verbatim>\<open>{"a": 1, "b": 2}\<close> with the labels \<open>z\<close>, \<open>a\<close>: status 1 and no output,
  although \<open>a\<close> is a key.
\<close>

theorem first_label_absent_exits_1_witness:
  "pystr ''a'' \<in> fst ` set [(pystr ''a'', JInt 1), (pystr ''b'', JInt 2)]
   \<and> ConfigLookup example_lib [pystr ''z'', pystr ''a''] (world_of config_path config_ab_text)
       = \<lparr>trace = [OpenRead config_path], exit_code = 1\<rparr>"
proof -
  have f: "files (world_of config_path config_ab_text) config_path = Inr config_ab_text"
    by (simp add: world_of_def)
  have j: "json_loads example_lib config_ab_text
           = Some (JObj [(pystr ''a'', JInt 1), (pystr ''b'', JInt 2)])"
    by (simp add: example_lib_def config_ab_def)
  have k: "pystr ''z'' \<notin> fst ` set [(pystr ''a'', JInt 1), (pystr ''b'', JInt 2)]"
    by (simp add: pystr_Nil pystr_Cons)
  from first_label_absent_exits_1 [OF f j k, of "[pystr ''a'']"] show ?thesis by simp
qed




text \<open>
  Claim C10. With no label and a configuration file that decodes (to any value), the
  loop body never runs: nothing is printed and the status is 0.
\<close>

theorem no_labels_exit_0:
  assumes "files w config_path = Inr t"
    and "json_loads lib t = Some config"
  shows "ConfigLookup lib [] w = \<lparr>trace = [OpenRead config_path], exit_code = 0\<rparr>
         \<and> stdout_of (trace (ConfigLookup lib [] w)) = []"
  using assms by (simp add: ConfigLookup_def)

text \<open>
  The configuration \<^verbatim>\<open>{"a": 1, "b": 2}\<close> with no label.
\<close>

theorem no_labels_exit_0_witness:
  "ConfigLookup example_lib [] (world_of config_path config_ab_text)
     = \<lparr>trace = [OpenRead config_path], exit_code = 0\<rparr>
   \<and> stdout_of (trace (ConfigLookup example_lib [] (world_of config_path config_ab_text))) = []"
proof -
  have f: "files (world_of config_path config_ab_text) config_path = Inr config_ab_text"
    by (simp add: world_of_def)
  have j: "json_loads example_lib config_ab_text = Some config_ab"
    by (simp add: example_lib_def)
  from no_labels_exit_0 [OF f j] show ?thesis .
qed

section \<open>Lemmas about the scanner\<close>

lemma export_macro_sound:
  assumes "export_macro lib s = Some mac"
  shows "mac \<noteq> [] \<and> (\<exists>t. macro_definition lib mac t \<and> occurs_at_line_start t s)"
proof -
  from assms obtain st e ms where sr: "search (macro_pattern lib) s 0 = Some (st, e, ms)"
    and g: "group s ms 1 = Some mac"
    by (auto simp: export_macro_def split: option.splits)
  from search_macro_sound [OF sr] g obtain t
    where t: "macro_definition lib mac t" "occurs_at_line_start t s" by auto
  from t(1) have "mac \<noteq> []" unfolding macro_definition_def by blast
  with t show ?thesis by blast
qed

lemma export_macro_complete:
  assumes "macro_definition lib mac t" and "occurs_at_line_start t s"
  shows "\<exists>mac'. export_macro lib s = Some mac'"
proof -
  from search_macro_complete [OF assms] obtain st e ms
    where sr: "search (macro_pattern lib) s 0 = Some (st, e, ms)" by auto
  from search_macro_sound [OF sr] obtain mac' where "group s ms 1 = Some mac'" by blast
  with sr show ?thesis by (simp add: export_macro_def)
qed

lemma scan_source_macro:
  assumes "export_macro lib s = Some mac"
  shows "scan_source lib s = Inr (map (export_of s) (findall (func_pattern lib mac) s))"
  using assms export_macro_sound [OF assms] by (simp add: scan_source_def)


lemma search_func_complete:
  assumes "function_definition lib mac ret nm ar t" and "occurs_at_line_start t s"
  shows "search (func_pattern lib mac) s 0 \<noteq> None"
proof
  assume none: "search (func_pattern lib mac) s 0 = None"
  from assms(2) obtain pre post where s: "s = pre @ t @ post"
    and pre: "pre = [] \<or> last pre = 10"
    unfolding occurs_at_line_start_def by blast
  from assms(1) obtain ws0 ws1 ws2 ws3 ws4 where
    t: "t = ws0 @ mac @ ws1 @ ret @ ws2 @ nm @ ws3 @ pystr ''('' @ ar @ pystr '')'' @
            ws4 @ pystr ''{''"
    and c: "list_all is_space ws0" "list_all is_space ws1" "ws1 \<noteq> []"
      "list_all (is_ret_char lib) ret" "ret \<noteq> []" "list_all is_space ws2" "ws2 \<noteq> []"
      "list_all (is_word lib) nm" "nm \<noteq> []" "list_all is_space ws3"
      "list_all not_rparen ar" "list_all is_space ws4"
    unfolding function_definition_def by blast
  from line_start_position [OF s pre]
  have bol: "length pre = 0 \<or> s ! (length pre - 1) = 10" .
  from s t have d: "drop (length pre) s = ws0 @ mac @ ws1 @ ret @ ws2 @ nm @ ws3 @
      pystr ''('' @ ar @ pystr '')'' @ ws4 @ pystr ''{'' @ post"
    by simp
  from c have n: "0 \<le> length ws0" "1 \<le> length ws1" "1 \<le> length ret" "1 \<le> length ws2"
    "1 \<le> length nm" "0 \<le> length ws3" "0 \<le> length ar" "0 \<le> length ws4"
    by (simp_all add: Suc_le_eq)
  have "rx_match (func_pattern lib mac) s (length pre) Map.empty \<noteq> None"
    by (rule func_match_complete [OF bol d c(1) n(1) c(2) n(2) c(4) n(3) c(6) n(4) c(8) n(5)
          c(10) n(6) c(11) n(7) c(12) n(8)])
  moreover from s have "length pre \<le> length s" by simp
  ultimately show False using search_NoneD [OF none, of "length pre"] by simp
qed

lemma findall_empty_iff: "findall ops s = [] \<longleftrightarrow> search ops s 0 = None"
  by (simp add: findall_def findall_from.simps [of ops s 0] split: option.splits)

lemma no_function_definition_findall:
  assumes "\<not> (\<exists>ret nm ar t. function_definition lib mac ret nm ar t \<and> occurs_at_line_start t s)"
  shows "findall (func_pattern lib mac) s = []"
proof (rule ccontr)
  assume "findall (func_pattern lib mac) s \<noteq> []"
  then obtain mt where "mt \<in> set (findall (func_pattern lib mac) s)"
    by (cases "findall (func_pattern lib mac) s") auto
  moreover obtain st e ms where "mt = (st, e, ms)" by (cases mt)
  ultimately have "(st, e, ms) \<in> set (findall (func_pattern lib mac) s)" by simp
  from findall_func_sound [OF this] assms show False by blast
qed

text \<open>
  \<open>int\<close> reads back what \<open>str\<close> writes for an integer.
\<close>

lemma dec_digits_all: "list_all ascii_digit (dec_digits n)"
proof (induction n rule: dec_digits.induct)
  case (1 n)
  show ?case
  proof (cases "n < 10")
    case True
    then show ?thesis by (simp add: dec_digits.simps [of n] ascii_digit_def)
  next
    case False
    have "n mod 10 < 10" by simp
    then have "ascii_digit (48 + n mod 10)" unfolding ascii_digit_def by linarith
    with False "1.IH" show ?thesis by (simp add: dec_digits.simps [of n])
  qed
qed

lemma dec_digits_not_Nil: "dec_digits n \<noteq> []"
  by (simp add: dec_digits.simps [of n])

lemma digit_val_ascii: "ascii_digit c \<Longrightarrow> digit_val lib c = Some (c - 48)"
  by (simp add: digit_val_def ascii_digit_def)

lemma scan_digits_ascii:
  "list_all ascii_digit xs \<Longrightarrow>
     scan_digits lib acc xs = Some (foldl (\<lambda>a c. 10 * a + (c - 48)) acc xs, [])"
  by (induction xs arbitrary: acc) (simp_all add: digit_val_ascii)

lemma foldl_dec_digits:
  "foldl (\<lambda>a c. 10 * a + (c - 48)) acc (dec_digits n) = acc * 10 ^ length (dec_digits n) + n"
proof (induction n arbitrary: acc rule: dec_digits.induct)
  case (1 n)
  show ?case
  proof (cases "n < 10")
    case True
    then show ?thesis by (simp add: dec_digits.simps [of n])
  next
    case False
    have n: "10 * (n div 10) + n mod 10 = n" by simp
    from False have d: "dec_digits n = dec_digits (n div 10) @ [48 + n mod 10]"
      by (simp add: dec_digits.simps [of n])
    have "foldl (\<lambda>a c. 10 * a + (c - 48)) acc (dec_digits n)
          = 10 * (acc * 10 ^ length (dec_digits (n div 10)) + n div 10) + n mod 10"
      unfolding d by (simp add: "1.IH" [OF False])
    also have "\<dots> = acc * 10 ^ length (dec_digits n) + (10 * (n div 10) + n mod 10)"
      unfolding d by (simp add: algebra_simps)
    finally show ?thesis using n by simp
  qed
qed

lemma py_int_dec_digits:
  "py_int lib (dec_digits n) = Some (int n)"
proof -
  obtain c cs where cs: "dec_digits n = c # cs"
    using dec_digits_not_Nil [of n] by (cases "dec_digits n") auto
  from dec_digits_all [of n] cs have c: "ascii_digit c" and r: "list_all ascii_digit cs"
    by simp_all
  from c have ns: "\<not> int_space c" "c \<noteq> 43" "c \<noteq> 45"
    by (auto simp: ascii_digit_def int_space_def)
  have "scan_digits lib (c - 48) cs
        = Some (foldl (\<lambda>a c. 10 * a + (c - 48)) 0 (dec_digits n), [])"
    unfolding cs using scan_digits_ascii [OF r] by simp
  then have "scan_digits lib (c - 48) cs = Some (n, [])"
    by (simp add: foldl_dec_digits)
  with ns c show ?thesis
    by (simp add: py_int_def cs digit_val_ascii)
qed

lemma py_int_minus_dec_digits:
  "py_int lib (45 # dec_digits n) = Some (- int n)"
proof -
  obtain c cs where cs: "dec_digits n = c # cs"
    using dec_digits_not_Nil [of n] by (cases "dec_digits n") auto
  from dec_digits_all [of n] cs have c: "ascii_digit c" and r: "list_all ascii_digit cs"
    by simp_all
  have "scan_digits lib (c - 48) cs
        = Some (foldl (\<lambda>a c. 10 * a + (c - 48)) 0 (dec_digits n), [])"
    unfolding cs using scan_digits_ascii [OF r] by simp
  then have "scan_digits lib (c - 48) cs = Some (n, [])"
    by (simp add: foldl_dec_digits)
  with c show ?thesis
    by (simp add: py_int_def cs digit_val_ascii int_space_def)
qed

lemma py_int_py_str_int: "py_int lib (py_str_int v) = Some v"
  by (simp add: py_str_int_def py_int_dec_digits py_int_minus_dec_digits)




text \<open>
  The example inputs, evaluated.
\<close>

lemmas rx_eval =
  pystr_Nil pystr_Cons greedy.simps search.simps findall_from.simps findall_def
  is_space_def is_word_def is_ret_char_def not_rparen_def group_def group_str_def slice_def
  strip_def export_of_def export_macro_def

lemmas argv_eval =
  parse_args_def parse_optional_def option_strings_def pystr_Nil pystr_Cons finish_def store_def
  get_option_tuples_def starts_with_def negative_number_def neg_body_def is_digit_def

lemma example_scan:
  "scan_source lib example_source =
     Inr [\<lparr>name = pystr ''Foo'', return_type = pystr ''int'', args = pystr ''int x''\<rparr>]"
  by (simp add: scan_source_def example_source_def macro_pattern_def func_pattern_def rx_eval)

lemma multiline_scan:
  "scan_source lib multiline_source =
     Inr [\<lparr>name = pystr ''Foo'', return_type = pystr ''int'',
           args = pystr ''int x,'' @ [10] @ pystr ''    int y''\<rparr>]"
  by (simp add: scan_source_def multiline_source_def macro_pattern_def func_pattern_def rx_eval)


lemma declaration_macro:
  "export_macro lib declaration_source = Some (pystr ''MYAPI'')"
  by (simp add: declaration_source_def macro_pattern_def rx_eval)

lemma declaration_search:
  "search (func_pattern lib (pystr ''MYAPI'')) declaration_source 0 = None"
  by (simp add: declaration_source_def func_pattern_def rx_eval)

lemma example_parse_1:
  "parse_args lib (example_argv (pystr ''1'')) = Parsed (example_args (pystr ''1''))"
  by (simp add: example_argv_def example_args_def argv_eval)




lemma example_world_files:
  "files (world_of (pystr ''lib.cpp'') s) (arg_source (example_args v)) = Inr s"
  "open_w_error (world_of (pystr ''lib.cpp'') s) (arg_out (example_args v)) = None"
  by (simp_all add: world_of_def example_args_def)

lemma py_int_1: "py_int lib (arg_version (example_args (pystr ''1''))) = Some 1"
  using py_int_py_str_int [of lib 1]
  by (simp add: example_args_def py_str_int_def dec_digits.simps pystr_Nil pystr_Cons)



lemma declaration_macro_definition:
  "macro_definition lib (pystr ''MYAPI'') (pystr ''#define MYAPI __declspec(dllexport)'')"
  unfolding macro_definition_def
  apply (rule exI [of _ "[]"], rule exI [of _ "[32]"], rule exI [of _ "[32]"])
  apply (rule exI [of _ "[]"], rule exI [of _ "[]"], rule exI [of _ "[]"])
  apply (simp add: pystr_Nil pystr_Cons is_space_def is_word_def)
  done

lemma declaration_macro_occurs:
  "occurs_at_line_start (pystr ''#define MYAPI __declspec(dllexport)'') declaration_source"
  unfolding occurs_at_line_start_def
  apply (rule exI [of _ "[]"], rule exI [of _ "[10] @ pystr ''MYAPI int Foo(int x);'' @ [10]"])
  apply (simp add: declaration_source_def)
  done

lemma declaration_no_function:
  "\<forall>mac. export_macro lib declaration_source = Some mac \<longrightarrow>
     \<not> (\<exists>ret nm ar t. function_definition lib mac ret nm ar t \<and>
            occurs_at_line_start t declaration_source)"
  using search_func_complete [of lib "pystr ''MYAPI''" _ _ _ _ declaration_source]
    declaration_search [of lib]
  by (auto simp: declaration_macro)




section \<open>Properties of ExportScanner\<close>





text \<open>
  Claim C4, as amended. Every entry of the exported functions comes from one contiguous
  span of the source text that begins at a line start and reads: the macro name, the
  return type text, the function name, the parenthesised argument text and the opening
  brace, with white space between them where the pattern allows it. The span is not
  confined to one line: the white space may be newlines, and so may characters of the
  return type text and of the argument text.
\<close>

theorem captured_function_is_one_span:
  assumes "scan_source lib s = Inr fs" and "f \<in> set fs"
  shows "\<exists>mac ret nm ar t.
           export_macro lib s = Some mac \<and>
           function_definition lib mac ret nm ar t \<and> occurs_at_line_start t s \<and>
           f = \<lparr>name = nm, return_type = strip ret, args = strip ar\<rparr>"
proof -
  from assms(1) obtain mac where mac: "export_macro lib s = Some mac"
    and fs: "fs = map (export_of s) (findall (func_pattern lib mac) s)"
    by (auto simp: scan_source_def split: option.splits if_splits)
  from assms(2) fs obtain st e ms
    where mem: "(st, e, ms) \<in> set (findall (func_pattern lib mac) s)"
      and f: "f = export_of s (st, e, ms)" by auto
  from findall_func_sound [OF mem] obtain t
    where "function_definition lib mac (group_str s ms 1) (group_str s ms 2)
             (group_str s ms 3) t" and "occurs_at_line_start t s" by blast
  with mac f show ?thesis by (auto simp: export_of_def)
qed

text \<open>
  Claim C4 as stated fails: a definition whose head is broken over three lines before
  the closing parenthesis of its argument list is captured, the newline inside the
  argument list included.
\<close>

theorem multiline_definition_is_captured_counterexample:
  "scan_source example_lib multiline_source =
     Inr [\<lparr>name = pystr ''Foo'', return_type = pystr ''int'',
           args = pystr ''int x,'' @ [10] @ pystr ''    int y''\<rparr>]"
  by (rule multiline_scan)

text \<open>
  The entry for \<open>Foo\<close> of the two-line example file.
\<close>

theorem captured_function_is_one_span_witness:
  "\<exists>mac ret nm ar t.
     export_macro example_lib example_source = Some mac \<and>
     function_definition example_lib mac ret nm ar t \<and>
     occurs_at_line_start t example_source \<and>
     \<lparr>name = pystr ''Foo'', return_type = pystr ''int'', args = pystr ''int x''\<rparr> =
       \<lparr>name = nm, return_type = strip ret, args = strip ar\<rparr>"
  using captured_function_is_one_span [OF example_scan, of
      "\<lparr>name = pystr ''Foo'', return_type = pystr ''int'', args = pystr ''int x''\<rparr>" example_lib]
  by simp




text \<open>
  Claim C7. When the source text has a macro definition and no function definition
  guarded by the macro name the scanner derives, the run succeeds with exit status 0
  and writes a report whose list of exported functions is empty (given a command line
  that parses, a version that \<open>int\<close> accepts and an output path that can be opened).
\<close>

theorem macro_without_functions_writes_empty_list:
  assumes "parse_args lib argv = Parsed a"
    and "files w (arg_source a) = Inr s"
    and "macro_definition lib mac0 t0" and "occurs_at_line_start t0 s"
    and "\<forall>mac. export_macro lib s = Some mac \<longrightarrow>
           \<not> (\<exists>ret nm ar t. function_definition lib mac ret nm ar t \<and>
                  occurs_at_line_start t s)"
    and "py_int lib (arg_version a) = Some v"
    and "open_w_error w (arg_out a) = None"
  shows "ExportScanner lib now argv w =
           (\<lparr>trace = [OpenRead (arg_source a), OpenWrite (arg_out a)] @
                      (if arg_verbose a then verbose_lines a [] else []),
             exit_code = 0\<rparr>,
            w\<lparr>files := (files w)(arg_out a := Inr (json_dump lib
                 \<lparr>schema_version = v, source = arg_source a, timestamp = now,
                  exported_functions = []\<rparr>))\<rparr>)"
proof -
  from export_macro_complete [OF assms(3,4)] obtain mac
    where mac: "export_macro lib s = Some mac" by blast
  with assms(5) have "findall (func_pattern lib mac) s = []"
    by (intro no_function_definition_findall) blast
  with scan_source_macro [OF mac] have "scan_source lib s = Inr []" by simp
  with assms(1,2,6,7) show ?thesis by (simp add: ExportScanner_def)
qed

text \<open>
  The run on a file with the macro definition and the declaration \<^verbatim>\<open>MYAPI int Foo(int x);\<close>.
\<close>

theorem macro_without_functions_writes_empty_list_witness:
  "ExportScanner example_lib example_now (example_argv (pystr ''1''))
     (world_of (pystr ''lib.cpp'') declaration_source) =
   (\<lparr>trace = [OpenRead (pystr ''lib.cpp''), OpenWrite (pystr ''exports.json'')],
     exit_code = 0\<rparr>,
    (world_of (pystr ''lib.cpp'') declaration_source)
      \<lparr>files := (files (world_of (pystr ''lib.cpp'') declaration_source))
         (pystr ''exports.json'' := Inr (json_dump example_lib
            \<lparr>schema_version = 1, source = pystr ''lib.cpp'', timestamp = example_now,
             exported_functions = []\<rparr>))\<rparr>)"
  using macro_without_functions_writes_empty_list [OF example_parse_1 example_world_files(1)
      declaration_macro_definition declaration_macro_occurs declaration_no_function py_int_1
      example_world_files(2), of example_lib example_now]
  by (simp add: example_args_def)





end
